theory Spec2Isabelle
  imports Complex_Main "HOL-Library.Extended_Nat" "HOL-Library.Multiset"
begin

section \<open>JavaScript values handed to the archive\<close>

text \<open>
  The archive of \<^verbatim>\<open>src/main.js\<close> is a closure over five mutable variables. Its
  entry points take untyped JavaScript values and test them with \<^verbatim>\<open>typeof\<close>,
  \<^verbatim>\<open>Array.isArray\<close> and \<^verbatim>\<open>util.isInt\<close>, so the arguments are modelled by a
  datatype of JavaScript values. Numbers are real numbers (no rounding, no NaN, no
  infinities) and an array holds numbers, which is the only kind of array the archive
  computes with. A function value carries its declared arity (its \<^verbatim>\<open>length\<close>) and
  its meaning as a distance on two vectors. Values are immutable: the caller does not
  modify an array after handing it over.
\<close>

datatype jsval =
    JUndefined
  | JNull
  | JBool bool
  | JNum real
  | JStr string
  | JArr "real list"
  | JFun nat "real list \<Rightarrow> real list \<Rightarrow> real"
  | JObj "(string \<times> jsval) list"

datatype assertion =
    OptionsMustBeObject
  | KNearestNeighborsMustBePositiveInt
  | ArchiveThresholdMustBePositiveInt
  | DistanceFunctionMustBeFunction
  | MaxArchiveSizeMustBePositiveInt
  | MustArchiveAndClearFirst
  | BehaviorMustBeArray
  | GenomeMustBeString
  | DimensionalityMustMatch
  | RecentBehaviorCountMustBePositive
  | SparsitiesOnlyOnceAllAdded
  | RecentBehaviorIndexOutOfRange
  | BehaviorsDifferInDimensionality

datatype error = AssertionError assertion | TypeError

text \<open>\<^verbatim>\<open>typeof v\<close>.\<close>

fun typeof :: "jsval \<Rightarrow> string" where
  "typeof JUndefined = ''undefined''"
| "typeof JNull = ''object''"
| "typeof (JBool b) = ''boolean''"
| "typeof (JNum r) = ''number''"
| "typeof (JStr s) = ''string''"
| "typeof (JArr xs) = ''object''"
| "typeof (JFun n f) = ''function''"
| "typeof (JObj ps) = ''object''"

text \<open>
  \<^verbatim>\<open>v.name\<close>: reading a property of \<^verbatim>\<open>undefined\<close> or \<^verbatim>\<open>null\<close> throws a
  TypeError; arrays, strings and functions have a \<^verbatim>\<open>length\<close>; a property that is
  not there reads as \<^verbatim>\<open>undefined\<close>.
\<close>

fun get_prop :: "jsval \<Rightarrow> string \<Rightarrow> error + jsval" where
  "get_prop JUndefined name = Inl TypeError"
| "get_prop JNull name = Inl TypeError"
| "get_prop (JBool b) name = Inr JUndefined"
| "get_prop (JNum r) name = Inr JUndefined"
| "get_prop (JStr s) name =
     Inr (if name = ''length'' then JNum (real (length s)) else JUndefined)"
| "get_prop (JArr xs) name =
     Inr (if name = ''length'' then JNum (real (length xs)) else JUndefined)"
| "get_prop (JFun n f) name =
     Inr (if name = ''length'' then JNum (real n) else JUndefined)"
| "get_prop (JObj ps) name =
     Inr (case map_of ps name of None \<Rightarrow> JUndefined | Some v \<Rightarrow> v)"

text \<open>\<^verbatim>\<open>v === undefined\<close>.\<close>

fun is_undefined :: "jsval \<Rightarrow> bool" where
  "is_undefined JUndefined = True"
| "is_undefined v = False"

text \<open>\<^verbatim>\<open>Array.isArray(v)\<close>.\<close>

fun isArray :: "jsval \<Rightarrow> bool" where
  "isArray (JArr xs) = True"
| "isArray v = False"

text \<open>
  \<^verbatim>\<open>n === v\<close> for a number \<open>n\<close>: strict equality holds only for a number of the
  same value.
\<close>

fun num_strict_eq :: "real \<Rightarrow> jsval \<Rightarrow> bool" where
  "num_strict_eq n (JNum m) = (n = m)"
| "num_strict_eq n v = False"

text \<open>
  Modelled from the spec: \<^verbatim>\<open>util.isInt\<close> of the package \<^verbatim>\<open>swirlnet.util\<close>, which
  \<^verbatim>\<open>main.js\<close> requires and which is not part of the sources. The spec and the
  assertion messages of \<^verbatim>\<open>main.js\<close> call the accepted values integers: a number
  whose value is integral.
\<close>

fun isInt :: "jsval \<Rightarrow> bool" where
  "isInt (JNum r) = (of_int \<lfloor>r\<rfloor> = r)"
| "isInt v = False"

text \<open>\<^verbatim>\<open>util.isInt(v) && v > 0\<close>; the comparison is only reached for a number.\<close>

fun isInt_and_positive :: "jsval \<Rightarrow> bool" where
  "isInt_and_positive (JNum r) = (isInt (JNum r) \<and> r > 0)"
| "isInt_and_positive v = False"

section \<open>Configuration and state of one archive\<close>

type_synonym behavior = "real list"
type_synonym observation = "behavior \<times> string"

text \<open>
  The options that pass the assertions of \<^verbatim>\<open>makeArchive\<close>, as the closure reads
  them afterwards: \<^verbatim>\<open>options.kNearestNeighbors\<close> and
  \<^verbatim>\<open>options.archiveThreshold\<close> are positive integers,
  \<^verbatim>\<open>options.behaviorDistanceFunction\<close> is a function or absent, and
  \<^verbatim>\<open>maxArchiveSize\<close> is the variable set by \<^verbatim>\<open>init\<close>, \<^verbatim>\<open>Infinity\<close> when the
  option is absent.
\<close>

record config =
  kNearestNeighbors :: nat
  archiveThreshold :: nat
  behaviorDistanceFunction :: "(behavior \<Rightarrow> behavior \<Rightarrow> real) option"
  maxArchiveSize :: enat

record archive =
  behaviorArchive :: "observation list"
  recentBehaviors :: "observation list"
  dimensionality :: jsval
  sparsities :: "real list"
  sparsitiesCalculatedThisGeneration :: bool

text \<open>\<^verbatim>\<open>init\<close>; \<^verbatim>\<open>dimensionality\<close> is declared and left undefined.\<close>

definition init :: archive where
  "init = \<lparr> behaviorArchive = [], recentBehaviors = [], dimensionality = JUndefined,
            sparsities = [], sparsitiesCalculatedThisGeneration = False \<rparr>"

text \<open>
  \<^verbatim>\<open>makeArchive(options)\<close>: the five assertions in their order, then \<^verbatim>\<open>init\<close>.
  Reading a property of \<^verbatim>\<open>null\<close> (whose \<^verbatim>\<open>typeof\<close> is \<^verbatim>\<open>"object"\<close>) throws.
\<close>

definition read_nat :: "jsval \<Rightarrow> nat" where
  "read_nat v = (case v of JNum r \<Rightarrow> nat \<lfloor>r\<rfloor> | _ \<Rightarrow> 0)"

definition makeArchive :: "jsval \<Rightarrow> error + (config \<times> archive)" where
  "makeArchive options =
    (if typeof options \<noteq> ''object'' then Inl (AssertionError OptionsMustBeObject)
     else (case get_prop options ''kNearestNeighbors'' of Inl e \<Rightarrow> Inl e | Inr k \<Rightarrow>
     (if \<not> isInt_and_positive k then Inl (AssertionError KNearestNeighborsMustBePositiveInt)
     else (case get_prop options ''archiveThreshold'' of Inl e \<Rightarrow> Inl e | Inr t \<Rightarrow>
     (if \<not> isInt_and_positive t then Inl (AssertionError ArchiveThresholdMustBePositiveInt)
     else (case get_prop options ''behaviorDistanceFunction'' of Inl e \<Rightarrow> Inl e | Inr d \<Rightarrow>
     (if \<not> (typeof d = ''function'' \<or> is_undefined d)
     then Inl (AssertionError DistanceFunctionMustBeFunction)
     else (case get_prop options ''maxArchiveSize'' of Inl e \<Rightarrow> Inl e | Inr m \<Rightarrow>
     (if \<not> (isInt_and_positive m \<or> is_undefined m)
     then Inl (AssertionError MaxArchiveSizeMustBePositiveInt)
     else Inr (\<lparr> kNearestNeighbors = read_nat k,
                 archiveThreshold = read_nat t,
                 behaviorDistanceFunction = (case d of JFun n f \<Rightarrow> Some f | _ \<Rightarrow> None),
                 maxArchiveSize = (case m of JNum r \<Rightarrow> enat (nat \<lfloor>r\<rfloor>) | _ \<Rightarrow> \<infinity>) \<rparr>,
               init))))))))))"

section \<open>Distances and sparsity\<close>

text \<open>
  \<^verbatim>\<open>defaultBehaviorDistanceFunction\<close>. It is only ever called on stored behaviors,
  which are arrays, so its first assertion holds by typing; the second one is kept.
\<close>

definition distanceSquared_loop :: "behavior \<Rightarrow> behavior \<Rightarrow> real" where
  "distanceSquared_loop behavior0 behavior1 =
     fold (\<lambda>i distanceSquared. distanceSquared + (behavior0 ! i - behavior1 ! i)\<^sup>2)
       [0..<length behavior0] 0"

definition defaultBehaviorDistanceFunction :: "behavior \<Rightarrow> behavior \<Rightarrow> error + real" where
  "defaultBehaviorDistanceFunction behavior0 behavior1 =
     (if length behavior0 \<noteq> length behavior1
      then Inl (AssertionError BehaviorsDifferInDimensionality)
      else Inr (sqrt (distanceSquared_loop behavior0 behavior1)))"

text \<open>
  \<^verbatim>\<open>measureBehaviorDistance\<close>, as \<^verbatim>\<open>init\<close> binds it. A distance function of the
  caller is a total function to the reals.
\<close>

definition measureBehaviorDistance :: "config \<Rightarrow> behavior \<Rightarrow> behavior \<Rightarrow> error + real" where
  "measureBehaviorDistance cfg b0 b1 =
     (case behaviorDistanceFunction cfg of
        None \<Rightarrow> defaultBehaviorDistanceFunction b0 b1
      | Some f \<Rightarrow> Inr (f b0 b1))"

text \<open>
  The two loops of \<^verbatim>\<open>measureSparsity\<close> that push distances: over the archive
  (\<^verbatim>\<open>forEach\<close>) and over the indices of the generation buffer except the measured one.
  An exception of the distance function ends the loop.
\<close>

fun push_archive_distances ::
  "config \<Rightarrow> behavior \<Rightarrow> observation list \<Rightarrow> real list \<Rightarrow> error + real list" where
  "push_archive_distances cfg behavior [] distances = Inr distances"
| "push_archive_distances cfg behavior (archivedBehavior # rest) distances =
     (case measureBehaviorDistance cfg (fst archivedBehavior) behavior of
        Inl e \<Rightarrow> Inl e
      | Inr d \<Rightarrow> push_archive_distances cfg behavior rest (distances @ [d]))"

fun push_recent_distances ::
  "config \<Rightarrow> observation list \<Rightarrow> nat \<Rightarrow> behavior \<Rightarrow> nat list \<Rightarrow> real list
     \<Rightarrow> error + real list" where
  "push_recent_distances cfg recent recentBehaviorIndex behavior [] distances = Inr distances"
| "push_recent_distances cfg recent recentBehaviorIndex behavior (i # rest) distances =
     (if i \<noteq> recentBehaviorIndex
      then (case measureBehaviorDistance cfg (fst (recent ! i)) behavior of
              Inl e \<Rightarrow> Inl e
            | Inr d \<Rightarrow> push_recent_distances cfg recent recentBehaviorIndex behavior rest
                        (distances @ [d]))
      else push_recent_distances cfg recent recentBehaviorIndex behavior rest distances)"

text \<open>
  \<^verbatim>\<open>distances.reduce(function (a, b) { return a + b; })\<close>: without an initial value,
  \<^verbatim>\<open>reduce\<close> on an empty array throws a TypeError.
\<close>

fun reduce_add :: "real list \<Rightarrow> error + real" where
  "reduce_add [] = Inl TypeError"
| "reduce_add (a # rest) = Inr (foldl (\<lambda>a b. a + b) a rest)"

text \<open>
  \<^verbatim>\<open>measureSparsity(recentBehaviorIndex)\<close>. The comparator \<^verbatim>\<open>a - b\<close> sorts numbers
  ascending, and \<^verbatim>\<open>slice(0, n)\<close> keeps the first \<open>n\<close> elements.
\<close>

definition measureSparsity :: "config \<Rightarrow> archive \<Rightarrow> nat \<Rightarrow> error + real" where
  "measureSparsity cfg s recentBehaviorIndex =
    (if \<not> recentBehaviorIndex < length (recentBehaviors s)
     then Inl (AssertionError RecentBehaviorIndexOutOfRange)
     else
       (let behavior = fst (recentBehaviors s ! recentBehaviorIndex) in
       (case push_archive_distances cfg behavior (behaviorArchive s) [] of
         Inl e \<Rightarrow> Inl e
       | Inr distances0 \<Rightarrow>
       (case push_recent_distances cfg (recentBehaviors s) recentBehaviorIndex behavior
              [0..<length (recentBehaviors s)] distances0 of
         Inl e \<Rightarrow> Inl e
       | Inr distances \<Rightarrow>
       (let effectiveKNearestNeighbors =
             (if length distances < kNearestNeighbors cfg then length distances
              else kNearestNeighbors cfg);
           sliced = take effectiveKNearestNeighbors (sort distances)
       in (case reduce_add sliced of
            Inl e \<Rightarrow> Inl e
          | Inr summed \<Rightarrow> Inr (summed / real effectiveKNearestNeighbors)))))))"

section \<open>The operations of the archive\<close>

text \<open>
  Every operation returns its result, or the exception it throws, together with the
  state it leaves behind: an assertion that fails after an assignment leaves the
  assignment in place.
\<close>

text \<open>The loop of \<^verbatim>\<open>calculateSparsities\<close> over the indices of the buffer.\<close>

fun calculate_loop :: "config \<Rightarrow> archive \<Rightarrow> nat list \<Rightarrow> (error + unit) \<times> archive" where
  "calculate_loop cfg s [] = (Inr (), s)"
| "calculate_loop cfg s (i # rest) =
     (case measureSparsity cfg s i of
        Inl e \<Rightarrow> (Inl e, s)
      | Inr v \<Rightarrow> calculate_loop cfg (s\<lparr>sparsities := sparsities s @ [v]\<rparr>) rest)"

definition calculateSparsities :: "config \<Rightarrow> archive \<Rightarrow> (error + unit) \<times> archive" where
  "calculateSparsities cfg s =
    (if \<not> length (recentBehaviors s) > 0
     then (Inl (AssertionError RecentBehaviorCountMustBePositive), s)
     else if \<not> (length (sparsities s) = 0 \<or> length (sparsities s) = length (recentBehaviors s))
     then (Inl (AssertionError SparsitiesOnlyOnceAllAdded), s)
     else if length (sparsities s) \<noteq> length (recentBehaviors s)
     then (case calculate_loop cfg (s\<lparr>sparsities := []\<rparr>) [0..<length (recentBehaviors s)] of
             (Inl e, s') \<Rightarrow> (Inl e, s')
           | (Inr u, s') \<Rightarrow> (Inr (), s'\<lparr>sparsitiesCalculatedThisGeneration := True\<rparr>))
     else (Inr (), s\<lparr>sparsitiesCalculatedThisGeneration := True\<rparr>))"

text \<open>
  \<^verbatim>\<open>noteBehavior(behavior, genome)\<close>. The dimensionality is assigned before any
  assertion runs, from whatever \<^verbatim>\<open>behavior.length\<close> reads. The assertions
  \<^verbatim>\<open>Array.isArray(behavior)\<close> and \<^verbatim>\<open>typeof genome === "string"\<close> are the two
  case distinctions on the arguments.
\<close>

definition noteBehavior :: "archive \<Rightarrow> jsval \<Rightarrow> jsval \<Rightarrow> (error + unit) \<times> archive" where
  "noteBehavior s behavior genome =
    (case (if is_undefined (dimensionality s)
           then (case get_prop behavior ''length'' of
                   Inl e \<Rightarrow> Inl e
                 | Inr l \<Rightarrow> Inr (s\<lparr>dimensionality := l\<rparr>))
           else Inr s) of
       Inl e \<Rightarrow> (Inl e, s)
     | Inr s1 \<Rightarrow>
       if \<not> sparsitiesCalculatedThisGeneration s1 = False
       then (Inl (AssertionError MustArchiveAndClearFirst), s1)
       else (case behavior of
               JArr b \<Rightarrow>
                 (case genome of
                    JStr g \<Rightarrow>
                      if \<not> num_strict_eq (real (length b)) (dimensionality s1)
                      then (Inl (AssertionError DimensionalityMustMatch), s1)
                      else (Inr (), s1\<lparr>recentBehaviors := recentBehaviors s1 @ [(b, g)]\<rparr>)
                  | _ \<Rightarrow> (Inl (AssertionError GenomeMustBeString), s1))
             | _ \<Rightarrow> (Inl (AssertionError BehaviorMustBeArray), s1)))"

text \<open>\<^verbatim>\<open>getSparsities\<close>; \<^verbatim>\<open>util.copy\<close> of immutable values is the identity.\<close>

definition getSparsities :: "config \<Rightarrow> archive \<Rightarrow> (error + real list) \<times> archive" where
  "getSparsities cfg s =
    (case calculateSparsities cfg s of
       (Inl e, s') \<Rightarrow> (Inl e, s')
     | (Inr u, s') \<Rightarrow> (Inr (sparsities s'), s'))"

definition getArchive :: "archive \<Rightarrow> observation list" where
  "getArchive s = behaviorArchive s"

definition getArchiveLength :: "archive \<Rightarrow> nat" where
  "getArchiveLength s = length (behaviorArchive s)"

text \<open>
  \<^verbatim>\<open>pruneArchive\<close>: \<^verbatim>\<open>splice(0, n)\<close> removes the first \<open>n\<close> elements in place.
\<close>

definition pruneArchive :: "config \<Rightarrow> archive \<Rightarrow> archive" where
  "pruneArchive cfg s =
    (case maxArchiveSize cfg of
       \<infinity> \<Rightarrow> s
     | enat m \<Rightarrow>
         if getArchiveLength s > m
         then s\<lparr>behaviorArchive := drop (getArchiveLength s - m) (behaviorArchive s)\<rparr>
         else s)"

text \<open>
  The loop of \<^verbatim>\<open>archiveAndClear\<close> that pushes the novel observations. Reading
  \<^verbatim>\<open>sparsities[i]\<close> out of range gives \<^verbatim>\<open>undefined\<close>, which is not
  \<^verbatim>\<open>>=\<close> any number.
\<close>

fun archive_loop :: "config \<Rightarrow> archive \<Rightarrow> nat list \<Rightarrow> archive" where
  "archive_loop cfg s [] = s"
| "archive_loop cfg s (i # rest) =
     (if i < length (sparsities s) \<and> sparsities s ! i \<ge> real (archiveThreshold cfg)
      then archive_loop cfg (s\<lparr>behaviorArchive := behaviorArchive s @ [recentBehaviors s ! i]\<rparr>) rest
      else archive_loop cfg s rest)"

definition archiveAndClear :: "config \<Rightarrow> archive \<Rightarrow> (error + unit) \<times> archive" where
  "archiveAndClear cfg s =
    (case calculateSparsities cfg s of
       (Inl e, s') \<Rightarrow> (Inl e, s')
     | (Inr u, s1) \<Rightarrow>
         let s2 = archive_loop cfg s1 [0..<length (recentBehaviors s1)];
             s3 = pruneArchive cfg s2
         in (Inr (), s3\<lparr>recentBehaviors := [], sparsities := [],
                        sparsitiesCalculatedThisGeneration := False\<rparr>))"

section \<open>Sequences of calls\<close>

datatype call =
    NoteBehavior jsval jsval
  | GetSparsities
  | GetArchive
  | GetArchiveLength
  | ArchiveAndClear

text \<open>The state in which a call returns control to the caller, normally or by throwing.\<close>

fun step :: "config \<Rightarrow> call \<Rightarrow> archive \<Rightarrow> archive" where
  "step cfg (NoteBehavior behavior genome) s = snd (noteBehavior s behavior genome)"
| "step cfg GetSparsities s = snd (getSparsities cfg s)"
| "step cfg GetArchive s = s"
| "step cfg GetArchiveLength s = s"
| "step cfg ArchiveAndClear s = snd (archiveAndClear cfg s)"

definition run :: "config \<Rightarrow> call list \<Rightarrow> archive \<Rightarrow> archive" where
  "run cfg calls s = fold (step cfg) calls s"

fun is_record_call :: "call \<Rightarrow> bool" where
  "is_record_call (NoteBehavior behavior genome) = True"
| "is_record_call c = False"

fun is_finalize_call :: "call \<Rightarrow> bool" where
  "is_finalize_call ArchiveAndClear = True"
| "is_finalize_call c = False"

section \<open>The specification's notions\<close>

text \<open>
  The definitions of this section follow the words of the specification, not the code;
  the theorems below compare the two.
\<close>

text \<open>Euclidean distance between two vectors of equal length.\<close>

definition euclidean :: "behavior \<Rightarrow> behavior \<Rightarrow> real" where
  "euclidean a b = sqrt (\<Sum>i<length a. (a ! i - b ! i)\<^sup>2)"

text \<open>The distance of an instance: the pluggable metric, by default the Euclidean one.\<close>

definition distance :: "config \<Rightarrow> behavior \<Rightarrow> behavior \<Rightarrow> real" where
  "distance cfg a b =
     (case behaviorDistanceFunction cfg of None \<Rightarrow> euclidean a b | Some f \<Rightarrow> f a b)"

text \<open>
  The candidate distances of the observation \<open>B\<close> at position \<open>i\<close> of the buffer: from
  \<open>B\<close> to every archived entry and to every other observation of the buffer. It is a
  multiset, since equal distances count as often as they occur.
\<close>

definition candidate_distances :: "config \<Rightarrow> archive \<Rightarrow> nat \<Rightarrow> real multiset" where
  "candidate_distances cfg s i =
     (let B = fst (recentBehaviors s ! i);
          others = take i (recentBehaviors s) @ drop (Suc i) (recentBehaviors s)
      in {# distance cfg B (fst A). A \<in># mset (behaviorArchive s) #}
         + {# distance cfg B (fst B'). B' \<in># mset others #})"

text \<open>
  The same distances as the distance function of the instance measures them when it is
  called with the other entry first and \<open>B\<close> second.
\<close>

definition measured_distances :: "config \<Rightarrow> archive \<Rightarrow> nat \<Rightarrow> real multiset" where
  "measured_distances cfg s i =
     (let B = fst (recentBehaviors s ! i);
          others = take i (recentBehaviors s) @ drop (Suc i) (recentBehaviors s)
      in {# distance cfg (fst A) B. A \<in># mset (behaviorArchive s) #}
         + {# distance cfg (fst B') B. B' \<in># mset others #})"

text \<open>
  The arithmetic mean of the \<open>k_eff\<close> smallest candidates, \<open>k_eff\<close> the smaller of
  \<open>k\<close> and the number of candidates.
\<close>

definition mean_of_k_smallest :: "nat \<Rightarrow> real multiset \<Rightarrow> real" where
  "mean_of_k_smallest k C =
     (let k_eff = min k (size C);
          smallest = take k_eff (sorted_list_of_multiset C)
      in sum_list smallest / real k_eff)"

text \<open>
  The observations of a buffer whose sparsity reaches the threshold, in recording order.
\<close>

definition novel_observations ::
  "config \<Rightarrow> observation list \<Rightarrow> real list \<Rightarrow> observation list" where
  "novel_observations cfg obs sp =
     map fst (filter (\<lambda>(ob, x). x \<ge> real (archiveThreshold cfg)) (zip obs sp))"

text \<open>Dropping the oldest entries until the length is at most the maximum.\<close>

function drop_oldest :: "enat \<Rightarrow> 'a list \<Rightarrow> 'a list" where
  "drop_oldest m xs = (if enat (length xs) \<le> m then xs else drop_oldest m (tl xs))"
  by pat_completeness auto
termination
proof (relation "measure (\<lambda>(m, xs). length xs)")
  fix m :: enat and xs :: "'a list"
  assume "\<not> enat (length xs) \<le> m"
  then have "xs \<noteq> []" by (auto simp: zero_enat_def[symmetric])
  then show "((m, tl xs), (m, xs)) \<in> measure (\<lambda>(m, xs). length xs)" by simp
qed simp

declare drop_oldest.simps [simp del]

section \<open>Invariants of the reachable states\<close>

text \<open>
  The distances that \<^verbatim>\<open>measureSparsity\<close> collects, in the order and with the
  argument order of the code.
\<close>

definition code_candidates :: "config \<Rightarrow> archive \<Rightarrow> nat \<Rightarrow> real list" where
  "code_candidates cfg s i =
     map (\<lambda>x. distance cfg (fst x) (fst (recentBehaviors s ! i))) (behaviorArchive s)
     @ map (\<lambda>j. distance cfg (fst (recentBehaviors s ! j)) (fst (recentBehaviors s ! i)))
         (filter (\<lambda>j. j \<noteq> i) [0..<length (recentBehaviors s)])"

text \<open>Two behaviors on which the distance function of the instance does not throw.\<close>

definition compatible :: "config \<Rightarrow> behavior \<Rightarrow> behavior \<Rightarrow> bool" where
  "compatible cfg a b \<longleftrightarrow> length a = length b \<or> behaviorDistanceFunction cfg \<noteq> None"

text \<open>Every stored behavior has the length held in \<^verbatim>\<open>dimensionality\<close>.\<close>

definition same_dimension :: "archive \<Rightarrow> bool" where
  "same_dimension s \<longleftrightarrow>
     (\<forall>ob \<in> set (behaviorArchive s) \<union> set (recentBehaviors s).
        dimensionality s = JNum (real (length (fst ob))))"

text \<open>
  The two states of a generation: collecting, with an empty cache, or computed, with a
  cache that holds the sparsity of every buffered observation.
\<close>

definition cache_valid :: "config \<Rightarrow> archive \<Rightarrow> bool" where
  "cache_valid cfg s \<longleftrightarrow>
     (if sparsitiesCalculatedThisGeneration s
      then recentBehaviors s \<noteq> [] \<and>
           list_all2 (\<lambda>j v. measureSparsity cfg s j = Inr v)
             [0..<length (recentBehaviors s)] (sparsities s)
      else sparsities s = [])"

definition well_formed :: "config \<Rightarrow> archive \<Rightarrow> bool" where
  "well_formed cfg s \<longleftrightarrow> same_dimension s \<and> cache_valid cfg s"

definition computed :: "archive \<Rightarrow> bool" where
  "computed s \<longleftrightarrow> sparsitiesCalculatedThisGeneration s \<and> recentBehaviors s \<noteq> [] \<and>
     length (sparsities s) = length (recentBehaviors s)"

section \<open>The end-to-end scenario of the specification\<close>

definition scenario_options :: jsval where
  "scenario_options =
     JObj [(''kNearestNeighbors'', JNum 1), (''archiveThreshold'', JNum 2),
           (''maxArchiveSize'', JNum 2)]"

definition scenario_config :: config where
  "scenario_config = \<lparr> kNearestNeighbors = 1, archiveThreshold = 2,
                        behaviorDistanceFunction = None, maxArchiveSize = enat 2 \<rparr>"

definition generation1 :: "call list" where
  "generation1 = [NoteBehavior (JArr [0, 0]) (JStr ''g1''),
                  NoteBehavior (JArr [10, 0]) (JStr ''g2'')]"

definition generation3 :: "call list" where
  "generation3 = [NoteBehavior (JArr [0, 0]) (JStr ''g1''),
                  NoteBehavior (JArr [10, 0]) (JStr ''g2''),
                  NoteBehavior (JArr [20, 0]) (JStr ''g3'')]"

text \<open>
  A distance function that is not symmetric, one that is, and observations on a line.
\<close>

definition asymmetric_distance :: "behavior \<Rightarrow> behavior \<Rightarrow> real" where
  "asymmetric_distance x y = x ! 0 - 2 * y ! 0"

definition asymmetric_options :: jsval where
  "asymmetric_options =
     JObj [(''kNearestNeighbors'', JNum 2), (''archiveThreshold'', JNum 1),
           (''behaviorDistanceFunction'', JFun 2 asymmetric_distance)]"

definition asymmetric_config :: config where
  "asymmetric_config = \<lparr> kNearestNeighbors = 2, archiveThreshold = 1,
       behaviorDistanceFunction = Some asymmetric_distance, maxArchiveSize = \<infinity> \<rparr>"

definition absolute_distance :: "behavior \<Rightarrow> behavior \<Rightarrow> real" where
  "absolute_distance x y = \<bar>x ! 0 - y ! 0\<bar>"

definition absolute_options :: jsval where
  "absolute_options =
     JObj [(''kNearestNeighbors'', JNum 2), (''archiveThreshold'', JNum 1),
           (''behaviorDistanceFunction'', JFun 2 absolute_distance)]"

definition absolute_config :: config where
  "absolute_config = \<lparr> kNearestNeighbors = 2, archiveThreshold = 1,
       behaviorDistanceFunction = Some absolute_distance, maxArchiveSize = \<infinity> \<rparr>"

definition line_generation1 :: "call list" where
  "line_generation1 = [NoteBehavior (JArr [1]) (JStr ''a''), NoteBehavior (JArr [10]) (JStr ''b'')]"

definition line_generation2 :: "call list" where
  "line_generation2 = [NoteBehavior (JArr [4]) (JStr ''c''), NoteBehavior (JArr [7]) (JStr ''d''),
                       NoteBehavior (JArr [3]) (JStr ''e'')]"

definition generation4 :: "call list" where
  "generation4 = [NoteBehavior (JArr [10, 0]) (JStr ''g4''),
                  NoteBehavior (JArr [40, 0]) (JStr ''g5'')]"

section \<open>The distance loops\<close>

lemma fold_add_upt:
  "fold (\<lambda>i acc. acc + f i) [0..<n] (a::real) = a + (\<Sum>i<n. f i)"
  by (induction n arbitrary: a) (simp_all add: add.assoc)

lemma distanceSquared_loop_sum:
  "distanceSquared_loop a b = (\<Sum>i<length a. (a ! i - b ! i)\<^sup>2)"
  by (simp add: distanceSquared_loop_def fold_add_upt)

lemma measureBehaviorDistance_distance:
  "compatible cfg a b \<Longrightarrow> measureBehaviorDistance cfg a b = Inr (distance cfg a b)"
  by (auto simp: compatible_def measureBehaviorDistance_def distance_def
        defaultBehaviorDistanceFunction_def euclidean_def distanceSquared_loop_sum
        split: option.splits)

lemma euclidean_sym: "length a = length b \<Longrightarrow> euclidean a b = euclidean b a"
  by (simp add: euclidean_def power2_commute)

lemma push_archive_distances_ok:
  "\<forall>x\<in>set arch. compatible cfg (fst x) b \<Longrightarrow>
   push_archive_distances cfg b arch ds = Inr (ds @ map (\<lambda>x. distance cfg (fst x) b) arch)"
  by (induction arch arbitrary: ds) (simp_all add: measureBehaviorDistance_distance)

lemma push_recent_distances_ok:
  "\<forall>j\<in>set js. compatible cfg (fst (recent ! j)) b \<Longrightarrow>
   push_recent_distances cfg recent idx b js ds =
     Inr (ds @ map (\<lambda>j. distance cfg (fst (recent ! j)) b) (filter (\<lambda>j. j \<noteq> idx) js))"
  by (induction js arbitrary: ds) (simp_all add: measureBehaviorDistance_distance)

lemma foldl_add_sum_list: "foldl (\<lambda>a b. a + b) (a::real) xs = a + sum_list xs"
  by (induction xs arbitrary: a) (simp_all add: add.assoc)

lemma reduce_add_eq:
  "reduce_add xs = (if xs = [] then Inl TypeError else Inr (sum_list xs))"
  by (cases xs) (simp_all add: foldl_add_sum_list)

lemma filter_neq_upt:
  "i < n \<Longrightarrow> filter (\<lambda>j. j \<noteq> i) [0..<n] = [0..<i] @ [Suc i..<n]"
proof (induction n)
  case 0
  then show ?case by simp
next
  case (Suc n)
  show ?case
  proof (cases "i = n")
    case True
    then show ?thesis by (simp add: filter_id_conv)
  next
    case False
    with Suc.prems have "i < n" by simp
    with Suc.IH show ?thesis by simp
  qed
qed

lemma map_nth_upt_take: "i \<le> length xs \<Longrightarrow> map (\<lambda>j. xs ! j) [0..<i] = take i xs"
  by (metis (no_types) map_nth take_map take_upt add_0)

lemma map_nth_upt_drop: "map (\<lambda>j. xs ! j) [i..<length xs] = drop i xs"
  by (metis (no_types) map_nth drop_map drop_upt add_0)

lemma map_nth_others:
  "i < length xs \<Longrightarrow>
   map (\<lambda>j. xs ! j) (filter (\<lambda>j. j \<noteq> i) [0..<length xs]) = take i xs @ drop (Suc i) xs"
  by (simp add: filter_neq_upt map_nth_upt_take map_nth_upt_drop)

section \<open>A closed form of \<^verbatim>\<open>measureSparsity\<close>\<close>

lemma same_dimension_lengths:
  "same_dimension s \<Longrightarrow> x \<in> set (behaviorArchive s) \<union> set (recentBehaviors s) \<Longrightarrow>
   y \<in> set (behaviorArchive s) \<union> set (recentBehaviors s) \<Longrightarrow>
   length (fst x) = length (fst y)"
  unfolding same_dimension_def by (metis jsval.inject(2) of_nat_eq_iff)

lemma length_code_candidates:
  "i < length (recentBehaviors s) \<Longrightarrow>
   length (code_candidates cfg s i) = length (behaviorArchive s) + (length (recentBehaviors s) - 1)"
  by (simp add: code_candidates_def filter_neq_upt)

lemma take_sort_Nil:
  "(take (min k (length ds)) (sort ds) = []) = (min k (length ds) = 0)"
  by (simp only: length_0_conv[symmetric] length_take length_sort) simp

lemma measureSparsity_closed:
  assumes "same_dimension s" and "i < length (recentBehaviors s)"
  shows "measureSparsity cfg s i =
          (let ds = code_candidates cfg s i; k = min (kNearestNeighbors cfg) (length ds)
           in if k = 0 then Inl TypeError else Inr (sum_list (take k (sort ds)) / real k))"
proof -
  let ?b = "fst (recentBehaviors s ! i)"
  let ?ds = "code_candidates cfg s i"
  let ?k = "min (kNearestNeighbors cfg) (length ?ds)"
  have bi: "recentBehaviors s ! i \<in> set (behaviorArchive s) \<union> set (recentBehaviors s)"
    using assms(2) by simp
  have c1: "\<forall>x\<in>set (behaviorArchive s). compatible cfg (fst x) ?b"
    using same_dimension_lengths[OF assms(1) _ bi] by (simp add: compatible_def)
  have c2: "\<forall>j\<in>set [0..<length (recentBehaviors s)].
              compatible cfg (fst (recentBehaviors s ! j)) ?b"
    using same_dimension_lengths[OF assms(1) _ bi] by (simp add: compatible_def)
  have k: "(if length ds < kNearestNeighbors cfg then length ds else kNearestNeighbors cfg)
            = min (kNearestNeighbors cfg) (length ds)" for ds :: "real list"
    by simp
  have "measureSparsity cfg s i =
          (case reduce_add (take ?k (sort ?ds)) of
             Inl e \<Rightarrow> Inl e
           | Inr summed \<Rightarrow> Inr (summed / real ?k))"
    using assms(2)
    unfolding measureSparsity_def Let_def k
      push_archive_distances_ok[OF c1] push_recent_distances_ok[OF c2]
    by (simp add: code_candidates_def cong: sum.case_cong)
  also have "\<dots> = (if ?k = 0 then Inl TypeError
                     else Inr (sum_list (take ?k (sort ?ds)) / real ?k))"
    unfolding reduce_add_eq take_sort_Nil by (auto simp: min_def)
  finally show ?thesis by (simp only: Let_def)
qed

lemma measureSparsity_fails_alike:
  assumes "same_dimension s" and "i < length (recentBehaviors s)"
    and "j < length (recentBehaviors s)" and "measureSparsity cfg s i = Inl e"
  shows "measureSparsity cfg s j = Inl TypeError"
  using assms(4)
  unfolding measureSparsity_closed[OF assms(1,2)] measureSparsity_closed[OF assms(1,3)] Let_def
    length_code_candidates[OF assms(2)] length_code_candidates[OF assms(3)]
  by (auto split: if_splits simp: min_def)

lemma measureSparsity_update [simp]:
  "measureSparsity cfg (s\<lparr>sparsities := x\<rparr>) i = measureSparsity cfg s i"
  "measureSparsity cfg (s\<lparr>sparsitiesCalculatedThisGeneration := y\<rparr>) i = measureSparsity cfg s i"
  "measureSparsity cfg (s\<lparr>dimensionality := z\<rparr>) i = measureSparsity cfg s i"
  by (simp_all add: measureSparsity_def Let_def cong: sum.case_cong)

lemma measureSparsity_succeeds:
  assumes "same_dimension s" and "i < length (recentBehaviors s)"
    and "0 < kNearestNeighbors cfg"
    and "2 \<le> length (behaviorArchive s) + length (recentBehaviors s)"
  shows "\<exists>v. measureSparsity cfg s i = Inr v"
  using assms(2-4)
  unfolding measureSparsity_closed[OF assms(1,2)] Let_def length_code_candidates[OF assms(2)]
  by simp

lemma distance_sym:
  assumes "\<forall>f. behaviorDistanceFunction cfg = Some f \<longrightarrow> (\<forall>a b. f a b = f b a)"
    and "length a = length b"
  shows "distance cfg a b = distance cfg b a"
  using assms by (auto simp: distance_def euclidean_sym split: option.splits)

lemma mset_code_candidates:
  assumes "same_dimension s" and "i < length (recentBehaviors s)"
    and "\<forall>f. behaviorDistanceFunction cfg = Some f \<longrightarrow> (\<forall>a b. f a b = f b a)"
  shows "mset (code_candidates cfg s i) = candidate_distances cfg s i"
proof -
  let ?b = "fst (recentBehaviors s ! i)"
  have bi: "recentBehaviors s ! i \<in> set (behaviorArchive s) \<union> set (recentBehaviors s)"
    using assms(2) by simp
  have sym: "distance cfg (fst x) ?b = distance cfg ?b (fst x)"
    if "x \<in> set (behaviorArchive s) \<union> set (recentBehaviors s)" for x
    using distance_sym[OF assms(3)] same_dimension_lengths[OF assms(1) that bi] by blast
  have "map (\<lambda>j. distance cfg (fst (recentBehaviors s ! j)) ?b)
          (filter (\<lambda>j. j \<noteq> i) [0..<length (recentBehaviors s)])
        = map (\<lambda>x. distance cfg (fst x) ?b)
            (map (\<lambda>j. recentBehaviors s ! j) (filter (\<lambda>j. j \<noteq> i) [0..<length (recentBehaviors s)]))"
    by (simp add: comp_def)
  also have "\<dots> = map (\<lambda>x. distance cfg (fst x) ?b)
                     (take i (recentBehaviors s) @ drop (Suc i) (recentBehaviors s))"
    by (simp only: map_nth_others[OF assms(2)])
  also have "\<dots> = map (\<lambda>x. distance cfg ?b (fst x))
                     (take i (recentBehaviors s) @ drop (Suc i) (recentBehaviors s))"
    by (rule map_cong[OF refl], rule sym) (auto dest: in_set_takeD in_set_dropD)
  finally have r: "map (\<lambda>j. distance cfg (fst (recentBehaviors s ! j)) ?b)
          (filter (\<lambda>j. j \<noteq> i) [0..<length (recentBehaviors s)])
        = map (\<lambda>x. distance cfg ?b (fst x))
                     (take i (recentBehaviors s) @ drop (Suc i) (recentBehaviors s))" .
  have a: "map (\<lambda>x. distance cfg (fst x) ?b) (behaviorArchive s)
         = map (\<lambda>x. distance cfg ?b (fst x)) (behaviorArchive s)"
    by (rule map_cong[OF refl], rule sym) simp
  show ?thesis
    unfolding code_candidates_def candidate_distances_def Let_def r a
    by simp
qed

lemma mean_of_k_smallest_mset:
  "mean_of_k_smallest k (mset ds)
     = sum_list (take (min k (length ds)) (sort ds)) / real (min k (length ds))"
  by (simp add: mean_of_k_smallest_def Let_def sorted_list_of_multiset_mset)

lemma mset_code_candidates_measured:
  assumes "i < length (recentBehaviors s)"
  shows "mset (code_candidates cfg s i) = measured_distances cfg s i"
proof -
  let ?b = "fst (recentBehaviors s ! i)"
  have "map (\<lambda>j. distance cfg (fst (recentBehaviors s ! j)) ?b)
          (filter (\<lambda>j. j \<noteq> i) [0..<length (recentBehaviors s)])
        = map (\<lambda>x. distance cfg (fst x) ?b)
            (map (\<lambda>j. recentBehaviors s ! j) (filter (\<lambda>j. j \<noteq> i) [0..<length (recentBehaviors s)]))"
    by (simp add: comp_def)
  also have "\<dots> = map (\<lambda>x. distance cfg (fst x) ?b)
                     (take i (recentBehaviors s) @ drop (Suc i) (recentBehaviors s))"
    by (simp only: map_nth_others[OF assms])
  finally show ?thesis
    unfolding code_candidates_def measured_distances_def Let_def by simp
qed

lemma measured_distances_symmetric:
  assumes "same_dimension s" and "i < length (recentBehaviors s)"
    and "\<forall>f. behaviorDistanceFunction cfg = Some f \<longrightarrow> (\<forall>a b. f a b = f b a)"
  shows "measured_distances cfg s i = candidate_distances cfg s i"
  using mset_code_candidates_measured[OF assms(2), of cfg] mset_code_candidates[OF assms]
  by simp

lemma size_measured_distances:
  "i < length (recentBehaviors s) \<Longrightarrow>
   size (measured_distances cfg s i)
     = length (behaviorArchive s) + (length (recentBehaviors s) - 1)"
  by (simp add: measured_distances_def Let_def)

section \<open>Computing the sparsities of a generation\<close>

lemma calculate_loop_result:
  "calculate_loop cfg s js = (r, s') \<Longrightarrow>
   \<exists>vs. s' = s\<lparr>sparsities := sparsities s @ vs\<rparr> \<and>
        list_all2 (\<lambda>j v. measureSparsity cfg s j = Inr v) (take (length vs) js) vs \<and>
        (\<forall>u. r = Inr u \<longrightarrow> length vs = length js) \<and>
        (\<forall>e. r = Inl e \<longrightarrow>
           length vs < length js \<and> measureSparsity cfg s (js ! length vs) = Inl e)"
proof (induction js arbitrary: s)
  case Nil
  then show ?case by auto
next
  case (Cons j js)
  show ?case
  proof (cases "measureSparsity cfg s j")
    case (Inl e)
    with Cons.prems have "r = Inl e" "s' = s" by simp_all
    then show ?thesis using Inl by (intro exI[of _ "[]"]) simp
  next
    case (Inr v)
    with Cons.prems
    have "calculate_loop cfg (s\<lparr>sparsities := sparsities s @ [v]\<rparr>) js = (r, s')" by simp
    from Cons.IH[OF this] obtain vs where
      s': "s' = s\<lparr>sparsities := sparsities s @ [v] @ vs\<rparr>"
      and all: "list_all2 (\<lambda>j v. measureSparsity cfg s j = Inr v) (take (length vs) js) vs"
      and ok: "\<forall>u. r = Inr u \<longrightarrow> length vs = length js"
      and err: "\<forall>e. r = Inl e \<longrightarrow>
                  length vs < length js \<and> measureSparsity cfg s (js ! length vs) = Inl e"
      by auto
    show ?thesis
      using s' all ok err Inr by (intro exI[of _ "v # vs"]) simp
  qed
qed

lemma wf_init: "well_formed cfg init"
  by (simp add: well_formed_def same_dimension_def cache_valid_def init_def)

lemma measureSparsity_cong:
  "behaviorArchive s = behaviorArchive t \<Longrightarrow> recentBehaviors s = recentBehaviors t \<Longrightarrow>
   measureSparsity cfg s i = measureSparsity cfg t i"
  by (simp add: measureSparsity_def Let_def cong: sum.case_cong)

lemma calculateSparsities_wf:
  assumes "well_formed cfg s" and "calculateSparsities cfg s = (r, s')"
  shows "well_formed cfg s'"
    and "behaviorArchive s' = behaviorArchive s"
    and "recentBehaviors s' = recentBehaviors s"
    and "dimensionality s' = dimensionality s"
    and "r = Inr u \<Longrightarrow> sparsitiesCalculatedThisGeneration s'"
    and "r = Inl e \<Longrightarrow> s' = s"
proof -
  have sd: "same_dimension s" and cv: "cache_valid cfg s" using assms(1) by (simp_all add: well_formed_def)
  let ?n = "length (recentBehaviors s)"
  consider (empty) "?n = 0"
    | (partial) "?n > 0" "length (sparsities s) \<noteq> 0" "length (sparsities s) \<noteq> ?n"
    | (cached) "?n > 0" "length (sparsities s) = ?n"
    | (fresh) "?n > 0" "length (sparsities s) = 0" by linarith
  then have "well_formed cfg s' \<and> behaviorArchive s' = behaviorArchive s \<and>
     recentBehaviors s' = recentBehaviors s \<and> dimensionality s' = dimensionality s \<and>
     (r = Inr u \<longrightarrow> sparsitiesCalculatedThisGeneration s') \<and> (r = Inl e \<longrightarrow> s' = s)"
  proof cases
    case empty
    then show ?thesis using assms by (auto simp: calculateSparsities_def)
  next
    case partial
    then show ?thesis using assms by (auto simp: calculateSparsities_def)
  next
    case cached
    then have s': "s' = s\<lparr>sparsitiesCalculatedThisGeneration := True\<rparr>" and "r = Inr ()"
      using assms(2) by (simp_all add: calculateSparsities_def)
    moreover have "sparsitiesCalculatedThisGeneration s"
      using cv cached by (auto simp: cache_valid_def split: if_splits)
    ultimately show ?thesis using assms(1)
      by (simp add: well_formed_def same_dimension_def cache_valid_def)
  next
    case fresh
    obtain r0 s0 where loop: "calculate_loop cfg (s\<lparr>sparsities := []\<rparr>) [0..<?n] = (r0, s0)"
      by fastforce
    from calculate_loop_result[OF loop] obtain vs where
      s0: "s0 = s\<lparr>sparsities := vs\<rparr>"
      and all: "list_all2 (\<lambda>j v. measureSparsity cfg s j = Inr v) (take (length vs) [0..<?n]) vs"
      and ok: "\<forall>u. r0 = Inr u \<longrightarrow> length vs = ?n"
      and err: "\<forall>e. r0 = Inl e \<longrightarrow>
                  length vs < ?n \<and> measureSparsity cfg s ([0..<?n] ! length vs) = Inl e"
      by auto
    have notflag: "\<not> sparsitiesCalculatedThisGeneration s"
      using cv fresh by (auto simp: cache_valid_def dest: list_all2_lengthD split: if_splits)
    have sp: "sparsities s = []" using fresh by simp
    show ?thesis
    proof (cases r0)
      case (Inl e0)
      then have rs: "r = Inl e0" "s' = s0"
        using assms(2) fresh loop by (simp_all add: calculateSparsities_def)
      from err Inl have lt: "length vs < ?n" by simp
      from err Inl lt have f: "measureSparsity cfg s (length vs) = Inl e0" by auto
      have "vs = []"
      proof (rule ccontr)
        assume "vs \<noteq> []"
        then obtain v rest where vs: "vs = v # rest" by (cases vs) auto
        have "0 < length (take (length vs) [0..<?n])" using vs lt by simp
        note first = list_all2_nthD[OF all this]
        have n0: "[0..<?n] ! 0 = 0" using fresh(1) by (simp add: upt_conv_Cons)
        have "measureSparsity cfg s 0 = Inr v" using first vs lt by (simp add: n0)
        moreover have "measureSparsity cfg s 0 = Inl TypeError"
          using measureSparsity_fails_alike[OF sd lt _ f] fresh by simp
        ultimately show False by simp
      qed
      then have "s0 = s" using s0 sp by simp
      then show ?thesis using rs assms(1) by simp
    next
      case (Inr u0)
      then have rs: "r = Inr ()" "s' = s0\<lparr>sparsitiesCalculatedThisGeneration := True\<rparr>"
        using assms(2) fresh loop by (simp_all add: calculateSparsities_def)
      from ok Inr have len: "length vs = ?n" by simp
      have "cache_valid cfg s'"
        using all len fresh rs s0 by (simp add: cache_valid_def)
      moreover have "same_dimension s'" using sd rs s0 by (simp add: same_dimension_def)
      ultimately show ?thesis using rs s0 by (simp add: well_formed_def)
    qed
  qed
  then show "well_formed cfg s'"
    and "behaviorArchive s' = behaviorArchive s"
    and "recentBehaviors s' = recentBehaviors s"
    and "dimensionality s' = dimensionality s"
    and "r = Inr u \<Longrightarrow> sparsitiesCalculatedThisGeneration s'"
    and "r = Inl e \<Longrightarrow> s' = s" by simp_all
qed

section \<open>Recording an observation\<close>

lemma calculateSparsities_frame:
  assumes "calculateSparsities cfg s = (r, s')"
  shows "behaviorArchive s' = behaviorArchive s"
    and "recentBehaviors s' = recentBehaviors s"
    and "dimensionality s' = dimensionality s"
    and "r = Inr u \<Longrightarrow> sparsitiesCalculatedThisGeneration s' \<and> recentBehaviors s \<noteq> [] \<and>
           length (sparsities s') = length (recentBehaviors s)"
proof -
  obtain r0 s0 where loop:
    "calculate_loop cfg (s\<lparr>sparsities := []\<rparr>) [0..<length (recentBehaviors s)] = (r0, s0)"
    by fastforce
  from calculate_loop_result[OF loop] obtain vs where
    s0: "s0 = s\<lparr>sparsities := vs\<rparr>"
    and ok: "\<forall>u. r0 = Inr u \<longrightarrow> length vs = length (recentBehaviors s)"
    by auto
  have "behaviorArchive s' = behaviorArchive s \<and> recentBehaviors s' = recentBehaviors s \<and>
        dimensionality s' = dimensionality s \<and>
        (r = Inr u \<longrightarrow> sparsitiesCalculatedThisGeneration s' \<and> recentBehaviors s \<noteq> [] \<and>
           length (sparsities s') = length (recentBehaviors s))"
    using assms loop s0 ok
    by (cases r0) (auto simp: calculateSparsities_def split: if_splits)
  then show "behaviorArchive s' = behaviorArchive s"
    and "recentBehaviors s' = recentBehaviors s"
    and "dimensionality s' = dimensionality s"
    and "r = Inr u \<Longrightarrow> sparsitiesCalculatedThisGeneration s' \<and> recentBehaviors s \<noteq> [] \<and>
           length (sparsities s') = length (recentBehaviors s)" by simp_all
qed

lemma calculateSparsities_cached:
  assumes "sparsitiesCalculatedThisGeneration s" and "recentBehaviors s \<noteq> []"
    and "length (sparsities s) = length (recentBehaviors s)"
  shows "calculateSparsities cfg s = (Inr (), s)"
  using assms by (simp add: calculateSparsities_def)

lemma calculateSparsities_empty:
  "recentBehaviors s = [] \<Longrightarrow>
   calculateSparsities cfg s = (Inl (AssertionError RecentBehaviorCountMustBePositive), s)"
  by (simp add: calculateSparsities_def)

lemma getSparsities_Inr:
  "getSparsities cfg s = (Inr sp, s') \<longleftrightarrow>
   calculateSparsities cfg s = (Inr (), s') \<and> sp = sparsities s'"
  by (auto simp: getSparsities_def split: prod.splits sum.splits)

lemma getSparsities_Inl:
  "getSparsities cfg s = (Inl e, s') \<longleftrightarrow> calculateSparsities cfg s = (Inl e, s')"
  by (auto simp: getSparsities_def split: prod.splits sum.splits)

lemma snd_getSparsities: "snd (getSparsities cfg s) = snd (calculateSparsities cfg s)"
  by (auto simp: getSparsities_def split: prod.splits sum.splits)

lemma noteBehavior_frame:
  "behaviorArchive (snd (noteBehavior s b g)) = behaviorArchive s"
  "sparsities (snd (noteBehavior s b g)) = sparsities s"
  "sparsitiesCalculatedThisGeneration (snd (noteBehavior s b g))
     = sparsitiesCalculatedThisGeneration s"
  by (auto simp: noteBehavior_def split: sum.splits jsval.splits)

lemma noteBehavior_fail:
  "fst (noteBehavior s b g) = Inl e \<Longrightarrow>
   recentBehaviors (snd (noteBehavior s b g)) = recentBehaviors s"
  by (auto simp: noteBehavior_def split: sum.splits jsval.splits if_splits)

lemma noteBehavior_guard:
  "sparsitiesCalculatedThisGeneration s \<Longrightarrow>
   (\<exists>e. fst (noteBehavior s b g) = Inl e) \<and>
   recentBehaviors (snd (noteBehavior s b g)) = recentBehaviors s"
  by (auto simp: noteBehavior_def split: sum.splits)

lemma noteBehavior_dim_keep:
  "\<not> is_undefined (dimensionality s) \<Longrightarrow>
   dimensionality (snd (noteBehavior s b g)) = dimensionality s"
  by (auto simp: noteBehavior_def split: sum.splits jsval.splits)

lemma noteBehavior_dim_set:
  "is_undefined (dimensionality s) \<Longrightarrow> get_prop b ''length'' = Inr l \<Longrightarrow>
   dimensionality (snd (noteBehavior s b g)) = l"
  by (auto simp: noteBehavior_def split: sum.splits jsval.splits)

lemma num_strict_eq_iff: "num_strict_eq n v \<longleftrightarrow> v = JNum n"
  by (cases v) auto

lemma noteBehavior_success:
  "fst (noteBehavior s b g) = Inr u \<Longrightarrow>
   \<exists>v x. b = JArr v \<and> g = JStr x \<and> \<not> sparsitiesCalculatedThisGeneration s \<and>
     dimensionality (snd (noteBehavior s b g)) = JNum (real (length v)) \<and>
     recentBehaviors (snd (noteBehavior s b g)) = recentBehaviors s @ [(v, x)]"
  by (auto simp: noteBehavior_def num_strict_eq_iff split: sum.splits jsval.splits if_splits)

lemma noteBehavior_accepts:
  assumes "\<not> sparsitiesCalculatedThisGeneration s"
    and "is_undefined (dimensionality s) \<or> dimensionality s = JNum (real (length v))"
  shows "noteBehavior s (JArr v) (JStr x) =
           (Inr (), s\<lparr>dimensionality := JNum (real (length v)),
                      recentBehaviors := recentBehaviors s @ [(v, x)]\<rparr>)"
  using assms by (auto simp: noteBehavior_def)

lemma noteBehavior_rejects_length:
  assumes "dimensionality s = JNum (real n)" and "get_prop b ''length'' \<noteq> Inr (JNum (real n))"
  shows "(\<exists>e. fst (noteBehavior s b g) = Inl e) \<and> snd (noteBehavior s b g) = s"
  using assms by (auto simp: noteBehavior_def split: sum.splits jsval.splits)

lemma is_undefined_iff: "is_undefined v \<longleftrightarrow> v = JUndefined"
  by (cases v) auto

lemma same_dimension_undefined:
  "same_dimension s \<Longrightarrow> is_undefined (dimensionality s) \<Longrightarrow>
   behaviorArchive s = [] \<and> recentBehaviors s = []"
  by (cases "behaviorArchive s"; cases "recentBehaviors s")
     (auto simp: same_dimension_def is_undefined_iff)

lemma noteBehavior_wf:
  assumes "well_formed cfg s"
  shows "well_formed cfg (snd (noteBehavior s b g))"
proof (cases "fst (noteBehavior s b g)")
  case (Inl e)
  let ?s' = "snd (noteBehavior s b g)"
  have fr: "behaviorArchive ?s' = behaviorArchive s" "recentBehaviors ?s' = recentBehaviors s"
    "sparsities ?s' = sparsities s"
    "sparsitiesCalculatedThisGeneration ?s' = sparsitiesCalculatedThisGeneration s"
    using noteBehavior_frame noteBehavior_fail[OF Inl] by simp_all
  have cv: "cache_valid cfg ?s'"
    using assms fr measureSparsity_cong[OF fr(1,2)] by (simp add: well_formed_def cache_valid_def)
  have sd: "same_dimension ?s'"
  proof (cases "is_undefined (dimensionality s)")
    case True
    then have "behaviorArchive s = [] \<and> recentBehaviors s = []"
      using assms same_dimension_undefined by (simp add: well_formed_def)
    then show ?thesis using fr by (simp add: same_dimension_def)
  next
    case False
    from noteBehavior_dim_keep[OF this] show ?thesis
      using assms fr by (simp add: well_formed_def same_dimension_def)
  qed
  show ?thesis using cv sd by (simp add: well_formed_def)
next
  case (Inr u)
  let ?s' = "snd (noteBehavior s b g)"
  from noteBehavior_success[OF Inr] obtain v x where
    nf: "\<not> sparsitiesCalculatedThisGeneration s"
    and d: "dimensionality ?s' = JNum (real (length v))"
    and r: "recentBehaviors ?s' = recentBehaviors s @ [(v, x)]" by blast
  have fr: "behaviorArchive ?s' = behaviorArchive s" "sparsities ?s' = sparsities s"
    "sparsitiesCalculatedThisGeneration ?s' = sparsitiesCalculatedThisGeneration s"
    using noteBehavior_frame by simp_all
  have cv: "cache_valid cfg ?s'" using assms nf fr by (simp add: well_formed_def cache_valid_def)
  have sd: "same_dimension ?s'"
  proof (cases "is_undefined (dimensionality s)")
    case True
    then have "behaviorArchive s = [] \<and> recentBehaviors s = []"
      using assms same_dimension_undefined by (simp add: well_formed_def)
    then show ?thesis using fr r d by (simp add: same_dimension_def)
  next
    case False
    from noteBehavior_dim_keep[OF this] show ?thesis
      using assms fr r d by (auto simp: well_formed_def same_dimension_def)
  qed
  show ?thesis using cv sd by (simp add: well_formed_def)
qed

section \<open>Pruning and archiving\<close>

lemma drop_oldest_infinity: "drop_oldest \<infinity> xs = xs"
  by (simp add: drop_oldest.simps)

lemma drop_oldest_enat: "drop_oldest (enat m) xs = drop (length xs - m) xs"
proof (induction "length xs" arbitrary: xs)
  case 0
  then show ?case by (simp add: drop_oldest.simps)
next
  case (Suc n)
  then obtain x rest where xs: "xs = x # rest" and n: "length rest = n"
    by (cases xs) auto
  show ?case
  proof (cases "length xs \<le> m")
    case True
    then show ?thesis by (simp add: drop_oldest.simps)
  next
    case False
    then have "drop_oldest (enat m) xs = drop_oldest (enat m) rest"
      using xs by (subst drop_oldest.simps) simp
    also have "\<dots> = drop (length rest - m) rest" using Suc.hyps(1)[of rest] n by simp
    also have "\<dots> = drop (length xs - m) xs" using False xs by (simp add: Suc_diff_le)
    finally show ?thesis .
  qed
qed

lemma length_drop_oldest: "enat (length (drop_oldest m xs)) \<le> m"
  by (cases m) (simp_all add: drop_oldest_enat drop_oldest_infinity)

lemma pruneArchive_eq:
  "pruneArchive cfg s = s\<lparr>behaviorArchive := drop_oldest (maxArchiveSize cfg) (behaviorArchive s)\<rparr>"
  by (cases "maxArchiveSize cfg")
     (simp_all add: pruneArchive_def getArchiveLength_def drop_oldest_enat drop_oldest_infinity)

lemma archive_loop_eq:
  "archive_loop cfg s js =
     s\<lparr>behaviorArchive := behaviorArchive s @
         map (\<lambda>j. recentBehaviors s ! j)
           (filter (\<lambda>j. j < length (sparsities s) \<and>
                        sparsities s ! j \<ge> real (archiveThreshold cfg)) js)\<rparr>"
  by (induction js arbitrary: s) simp_all

lemma select_by_index:
  "length xs = length ys \<Longrightarrow>
   map (\<lambda>j. xs ! j) (filter (\<lambda>j. j < length ys \<and> P (ys ! j)) [0..<length xs])
     = map fst (filter (\<lambda>(x, y). P y) (zip xs ys))"
proof (induction xs arbitrary: ys rule: rev_induct)
  case Nil
  then show ?case by simp
next
  case (snoc x xs)
  from snoc.prems obtain y ys' where ys: "ys = ys' @ [y]" and len: "length xs = length ys'"
    by (cases ys rule: rev_cases) auto
  have f: "filter (\<lambda>j. j < length (ys' @ [y]) \<and> P ((ys' @ [y]) ! j)) [0..<length xs]
        = filter (\<lambda>j. j < length ys' \<and> P (ys' ! j)) [0..<length xs]"
    using len by (intro filter_cong) (auto simp: nth_append)
  have m: "map (\<lambda>j. (xs @ [x]) ! j) js = map (\<lambda>j. xs ! j) js"
    if "set js \<subseteq> {..<length xs}" for js
    using that by (intro map_cong) (auto simp: nth_append)
  have fr_eq: "map (\<lambda>j. (xs @ [x]) ! j)
          (filter (\<lambda>j. j < length (ys' @ [y]) \<and> P ((ys' @ [y]) ! j)) [0..<length xs])
        = map fst (filter (\<lambda>(x, y). P y) (zip xs ys'))"
    unfolding f using snoc.IH[OF len] by (subst m) auto
  have bk_eq: "map (\<lambda>j. (xs @ [x]) ! j)
          (filter (\<lambda>j. j < length (ys' @ [y]) \<and> P ((ys' @ [y]) ! j)) [length xs])
        = (if P y then [x] else [])"
    using len nth_append_length[of xs x] nth_append_length[of ys' y] by simp
  have rhs_eq: "map fst (filter (\<lambda>(x, y). P y) (zip (xs @ [x]) (ys' @ [y])))
        = map fst (filter (\<lambda>(x, y). P y) (zip xs ys')) @ (if P y then [x] else [])"
    using len by simp
  have "[0..<length (xs @ [x])] = [0..<length xs] @ [length xs]" by simp
  then show ?case
    unfolding ys by (simp only: filter_append map_append fr_eq bk_eq rhs_eq)
qed

section \<open>Sequences of calls preserve the invariants\<close>

lemma archiveAndClear_Inl:
  "calculateSparsities cfg s = (Inl e, s') \<Longrightarrow> archiveAndClear cfg s = (Inl e, s')"
  by (simp add: archiveAndClear_def)

lemma archiveAndClear_Inr:
  assumes "calculateSparsities cfg s = (Inr u, s1)"
  shows "archiveAndClear cfg s =
          (Inr (), s1\<lparr>behaviorArchive :=
                       drop_oldest (maxArchiveSize cfg)
                         (behaviorArchive s @
                          novel_observations cfg (recentBehaviors s) (sparsities s1)),
                     recentBehaviors := [], sparsities := [],
                     sparsitiesCalculatedThisGeneration := False\<rparr>)"
proof -
  have fr: "behaviorArchive s1 = behaviorArchive s" "recentBehaviors s1 = recentBehaviors s"
    and len: "length (sparsities s1) = length (recentBehaviors s)"
    using calculateSparsities_frame[OF assms] by simp_all
  have "map (\<lambda>j. recentBehaviors s ! j)
          (filter (\<lambda>j. j < length (sparsities s1) \<and>
                       real (archiveThreshold cfg) \<le> sparsities s1 ! j)
             [0..<length (recentBehaviors s)])
        = novel_observations cfg (recentBehaviors s) (sparsities s1)"
    unfolding novel_observations_def
    using select_by_index[OF len[symmetric], of "\<lambda>x. real (archiveThreshold cfg) \<le> x"]
    by simp
  then show ?thesis
    using assms fr by (simp add: archiveAndClear_def archive_loop_eq pruneArchive_eq)
qed

lemma set_drop_oldest: "set (drop_oldest m xs) \<subseteq> set xs"
  by (cases m) (auto simp: drop_oldest_enat drop_oldest_infinity dest: in_set_dropD)

lemma set_novel_observations: "set (novel_observations cfg obs sp) \<subseteq> set obs"
  by (auto simp: novel_observations_def dest: set_zip_leftD)

lemma archiveAndClear_wf:
  assumes "well_formed cfg s"
  shows "well_formed cfg (snd (archiveAndClear cfg s))"
proof -
  obtain r s1 where c: "calculateSparsities cfg s = (r, s1)" by fastforce
  show ?thesis
  proof (cases r)
    case (Inl e)
    then show ?thesis
      using c calculateSparsities_wf(1)[OF assms c] by (simp add: archiveAndClear_Inl)
  next
    case (Inr u)
    have w1: "well_formed cfg s1" using calculateSparsities_wf(1)[OF assms c] .
    have fr: "behaviorArchive s1 = behaviorArchive s" "recentBehaviors s1 = recentBehaviors s"
      using calculateSparsities_frame[OF c] by simp_all
    have sub: "set (drop_oldest (maxArchiveSize cfg)
                 (behaviorArchive s @ novel_observations cfg (recentBehaviors s) (sparsities s1)))
               \<subseteq> set (behaviorArchive s1) \<union> set (recentBehaviors s1)"
      using set_drop_oldest set_novel_observations fr by fastforce
    show ?thesis
      using c Inr w1 sub
      by (auto simp: archiveAndClear_Inr well_formed_def same_dimension_def cache_valid_def)
  qed
qed

lemma step_wf: "well_formed cfg s \<Longrightarrow> well_formed cfg (step cfg c s)"
proof (cases c)
  case (NoteBehavior b g)
  assume "well_formed cfg s" then show ?thesis using NoteBehavior by (simp add: noteBehavior_wf)
next
  case GetSparsities
  assume "well_formed cfg s" then show ?thesis
    using GetSparsities calculateSparsities_wf(1)[of cfg s]
    by (cases "calculateSparsities cfg s") (simp add: snd_getSparsities)
next
  case ArchiveAndClear
  assume "well_formed cfg s" then show ?thesis using ArchiveAndClear by (simp add: archiveAndClear_wf)
qed simp_all

lemma run_Nil [simp]: "run cfg [] s = s"
  by (simp add: run_def)

lemma run_Cons [simp]: "run cfg (c # cs) s = run cfg cs (step cfg c s)"
  by (simp add: run_def)

lemma run_append: "run cfg (cs @ ds) s = run cfg ds (run cfg cs s)"
  by (simp add: run_def)

lemma run_wf: "well_formed cfg s \<Longrightarrow> well_formed cfg (run cfg cs s)"
  by (induction cs arbitrary: s) (simp_all add: step_wf)

lemma reachable_wf: "well_formed cfg (run cfg cs init)"
  by (rule run_wf[OF wf_init])

lemma step_archive_unchanged:
  "\<not> is_finalize_call c \<Longrightarrow> behaviorArchive (step cfg c s) = behaviorArchive s"
proof (cases c)
  case GetSparsities
  then show ?thesis
    using calculateSparsities_frame(1)[of cfg s]
    by (cases "calculateSparsities cfg s") (simp add: snd_getSparsities)
qed (simp_all add: noteBehavior_frame)

lemma step_dim_keep:
  "\<not> is_undefined (dimensionality s) \<Longrightarrow> dimensionality (step cfg c s) = dimensionality s"
proof (cases c)
  case GetSparsities
  then show ?thesis
    using calculateSparsities_frame(3)[of cfg s]
    by (cases "calculateSparsities cfg s") (simp add: snd_getSparsities)
next
  case ArchiveAndClear
  obtain r s1 where cs: "calculateSparsities cfg s = (r, s1)" by fastforce
  then show ?thesis
    using ArchiveAndClear calculateSparsities_frame(3)[OF cs]
    by (cases r) (simp_all add: archiveAndClear_Inl archiveAndClear_Inr)
qed (simp_all add: noteBehavior_dim_keep)

lemma run_dim_keep:
  "\<not> is_undefined (dimensionality s) \<Longrightarrow> dimensionality (run cfg cs s) = dimensionality s"
  by (induction cs arbitrary: s) (simp_all add: step_dim_keep)

lemma step_without_record:
  "\<not> is_record_call c \<Longrightarrow> recentBehaviors s = [] \<Longrightarrow> step cfg c s = s"
  by (cases c)
     (simp_all add: snd_getSparsities calculateSparsities_empty archiveAndClear_Inl)

lemma run_without_record:
  "\<forall>c\<in>set cs. \<not> is_record_call c \<Longrightarrow> recentBehaviors s = [] \<Longrightarrow> run cfg cs s = s"
  by (induction cs arbitrary: s) (simp_all add: step_without_record)

lemma step_computed:
  assumes "computed s" and "\<not> is_finalize_call c"
  shows "computed (step cfg c s) \<and> recentBehaviors (step cfg c s) = recentBehaviors s"
proof (cases c)
  case (NoteBehavior b g)
  then show ?thesis
    using assms noteBehavior_guard[of s b g] noteBehavior_frame[of s b g]
    by (simp add: computed_def)
next
  case GetSparsities
  then show ?thesis
    using assms by (simp add: computed_def snd_getSparsities calculateSparsities_cached)
next
  case ArchiveAndClear
  then show ?thesis using assms by simp
qed (use assms in simp_all)

lemma run_computed:
  "computed s \<Longrightarrow> \<forall>c\<in>set cs. \<not> is_finalize_call c \<Longrightarrow>
   computed (run cfg cs s) \<and> recentBehaviors (run cfg cs s) = recentBehaviors s"
  by (induction cs arbitrary: s) (simp_all add: step_computed)

lemma step_bounded:
  assumes "enat (length (behaviorArchive s)) \<le> maxArchiveSize cfg"
  shows "enat (length (behaviorArchive (step cfg c s))) \<le> maxArchiveSize cfg"
proof (cases c)
  case ArchiveAndClear
  obtain r s1 where cs: "calculateSparsities cfg s = (r, s1)" by fastforce
  then show ?thesis
    using ArchiveAndClear assms calculateSparsities_frame(1)[OF cs]
    by (cases r) (simp_all add: archiveAndClear_Inl archiveAndClear_Inr length_drop_oldest)
qed (use assms step_archive_unchanged[of c cfg s] in simp_all)

lemma run_bounded:
  "enat (length (behaviorArchive s)) \<le> maxArchiveSize cfg \<Longrightarrow>
   enat (length (behaviorArchive (run cfg cs s))) \<le> maxArchiveSize cfg"
  by (induction cs arbitrary: s) (simp_all add: step_bounded)

lemma isInt_and_positive_nat:
  "isInt_and_positive v \<Longrightarrow> \<exists>n>0. v = JNum (real n) \<and> read_nat v = n"
proof (cases v)
  case (JNum r)
  assume "isInt_and_positive v"
  with JNum have i: "of_int \<lfloor>r\<rfloor> = r" and p: "r > 0" by simp_all
  then have "0 < \<lfloor>r\<rfloor>" by linarith
  then have "real (nat \<lfloor>r\<rfloor>) = r" "0 < nat \<lfloor>r\<rfloor>" using i by simp_all
  then show ?thesis using JNum by (auto simp: read_nat_def)
qed simp_all

lemma makeArchive_Inr:
  assumes "makeArchive options = Inr (cfg, s0)"
  shows "s0 = init" and "0 < kNearestNeighbors cfg" and "0 < archiveThreshold cfg"
    and "0 < maxArchiveSize cfg"
proof -
  from assms obtain k t d m where
    k: "isInt_and_positive k" and t: "isInt_and_positive t"
    and m: "isInt_and_positive m \<or> is_undefined m"
    and cfg: "cfg = \<lparr> kNearestNeighbors = read_nat k, archiveThreshold = read_nat t,
                 behaviorDistanceFunction = (case d of JFun n f \<Rightarrow> Some f | _ \<Rightarrow> None),
                 maxArchiveSize = (case m of JNum r \<Rightarrow> enat (nat \<lfloor>r\<rfloor>) | _ \<Rightarrow> \<infinity>) \<rparr>"
    and s0: "s0 = init"
    by (auto simp: makeArchive_def split: if_splits sum.splits)
  show "s0 = init" by (rule s0)
  show "0 < kNearestNeighbors cfg" using isInt_and_positive_nat[OF k] cfg by auto
  show "0 < archiveThreshold cfg" using isInt_and_positive_nat[OF t] cfg by auto
  show "0 < maxArchiveSize cfg"
  proof (cases "is_undefined m")
    case True
    then show ?thesis using cfg by (simp add: is_undefined_iff)
  next
    case False
    with m isInt_and_positive_nat[of m] obtain n where "n > 0" "m = JNum (real n)" by auto
    then show ?thesis using cfg by (simp add: zero_enat_def)
  qed
qed

section \<open>Sparsities in reachable states\<close>

lemma calculateSparsities_succeeds:
  assumes "well_formed cfg s" and "recentBehaviors s \<noteq> []" and "0 < kNearestNeighbors cfg"
    and "2 \<le> length (behaviorArchive s) + length (recentBehaviors s)"
  shows "\<exists>s'. calculateSparsities cfg s = (Inr (), s')"
proof (cases "sparsitiesCalculatedThisGeneration s")
  case True
  then have "length (sparsities s) = length (recentBehaviors s)"
    using assms(1) by (auto simp: well_formed_def cache_valid_def dest: list_all2_lengthD)
  from calculateSparsities_cached[OF True assms(2) this] show ?thesis by blast
next
  case False
  then have sp: "sparsities s = []" using assms(1) by (simp add: well_formed_def cache_valid_def)
  let ?n = "length (recentBehaviors s)"
  obtain r0 s0 where loop: "calculate_loop cfg (s\<lparr>sparsities := []\<rparr>) [0..<?n] = (r0, s0)"
    by fastforce
  from calculate_loop_result[OF loop] obtain vs where
    s0: "s0 = s\<lparr>sparsities := vs\<rparr>"
    and all: "list_all2 (\<lambda>j v. measureSparsity cfg s j = Inr v) (take (length vs) [0..<?n]) vs"
    and ok: "\<forall>u. r0 = Inr u \<longrightarrow> length vs = ?n"
    and err: "\<forall>e. r0 = Inl e \<longrightarrow>
                length vs < ?n \<and> measureSparsity cfg s ([0..<?n] ! length vs) = Inl e"
    by auto
  have sd: "same_dimension s" using assms(1) by (simp add: well_formed_def)
  have "\<exists>u. r0 = Inr u"
  proof (cases r0)
    case (Inl e)
    with err have lt: "length vs < ?n" by simp
    with err Inl have "measureSparsity cfg s (length vs) = Inl e" by auto
    with measureSparsity_succeeds[OF sd lt assms(3,4)] show ?thesis by simp
  qed simp
  then show ?thesis using loop sp assms(2) by (auto simp: calculateSparsities_def)
qed

lemma getSparsities_values:
  assumes "well_formed cfg s" and "getSparsities cfg s = (Inr sp, s')"
  shows "length sp = length (recentBehaviors s)"
    and "i < length (recentBehaviors s) \<Longrightarrow> measureSparsity cfg s i = Inr (sp ! i)"
proof -
  from assms(2) have c: "calculateSparsities cfg s = (Inr (), s')" and sp: "sp = sparsities s'"
    by (simp_all add: getSparsities_Inr)
  have w: "well_formed cfg s'" and fl: "sparsitiesCalculatedThisGeneration s'"
    using calculateSparsities_wf(1,5)[OF assms(1) c] by simp_all
  have fr: "behaviorArchive s' = behaviorArchive s" "recentBehaviors s' = recentBehaviors s"
    using calculateSparsities_frame[OF c] by simp_all
  from w fl have all: "list_all2 (\<lambda>j v. measureSparsity cfg s' j = Inr v)
             [0..<length (recentBehaviors s)] sp"
    by (simp add: well_formed_def cache_valid_def sp fr)
  from list_all2_lengthD[OF all] show "length sp = length (recentBehaviors s)" by simp
  assume i: "i < length (recentBehaviors s)"
  with list_all2_nthD[OF all, of i] have "measureSparsity cfg s' i = Inr (sp ! i)" by simp
  then show "measureSparsity cfg s i = Inr (sp ! i)"
    using measureSparsity_cong[OF fr] by simp
qed

lemma archiveAndClear_returns:
  assumes "well_formed cfg s" and "recentBehaviors s \<noteq> []" and "0 < kNearestNeighbors cfg"
    and "2 \<le> length (behaviorArchive s) + length (recentBehaviors s)"
  shows "\<exists>s'. archiveAndClear cfg s = (Inr (), s')"
  using calculateSparsities_succeeds[OF assms] archiveAndClear_Inr by blast

section \<open>Evaluating the scenario\<close>

lemma default_distance_example: "defaultBehaviorDistanceFunction [0, 0] [3, 4] = Inr 5"
  by (simp add: defaultBehaviorDistanceFunction_def distanceSquared_loop_def)

lemma makeArchive_scenario: "makeArchive scenario_options = Inr (scenario_config, init)"
  by (simp add: makeArchive_def scenario_options_def scenario_config_def read_nat_def)

lemma generation1_state:
  "run scenario_config generation1 init =
     \<lparr> behaviorArchive = [], recentBehaviors = [([0, 0], ''g1''), ([10, 0], ''g2'')],
       dimensionality = JNum 2, sparsities = [],
       sparsitiesCalculatedThisGeneration = False \<rparr>"
  by (simp add: generation1_def noteBehavior_def init_def)

lemma generation1_sparsities:
  "getSparsities scenario_config (run scenario_config generation1 init) =
     (Inr [10, 10],
      \<lparr> behaviorArchive = [], recentBehaviors = [([0, 0], ''g1''), ([10, 0], ''g2'')],
        dimensionality = JNum 2, sparsities = [10, 10],
        sparsitiesCalculatedThisGeneration = True \<rparr>)"
  unfolding generation1_state
  by (simp add: getSparsities_def calculateSparsities_def measureSparsity_def
        measureBehaviorDistance_def defaultBehaviorDistanceFunction_def
        distanceSquared_loop_def scenario_config_def)

lemma generation1_finalized:
  "archiveAndClear scenario_config (run scenario_config generation1 init) =
     (Inr (),
      \<lparr> behaviorArchive = [([0, 0], ''g1''), ([10, 0], ''g2'')], recentBehaviors = [],
        dimensionality = JNum 2, sparsities = [],
        sparsitiesCalculatedThisGeneration = False \<rparr>)"
  unfolding generation1_state
  by (simp add: archiveAndClear_def calculateSparsities_def
        measureSparsity_def measureBehaviorDistance_def defaultBehaviorDistanceFunction_def
        distanceSquared_loop_def pruneArchive_def getArchiveLength_def scenario_config_def)

lemma generation3_state:
  "run scenario_config generation3 init =
     \<lparr> behaviorArchive = [],
       recentBehaviors = [([0, 0], ''g1''), ([10, 0], ''g2''), ([20, 0], ''g3'')],
       dimensionality = JNum 2, sparsities = [],
       sparsitiesCalculatedThisGeneration = False \<rparr>"
  by (simp add: generation3_def noteBehavior_def init_def)

lemma generation3_sparsities:
  "getSparsities scenario_config (run scenario_config generation3 init) =
     (Inr [10, 10, 10],
      \<lparr> behaviorArchive = [],
        recentBehaviors = [([0, 0], ''g1''), ([10, 0], ''g2''), ([20, 0], ''g3'')],
        dimensionality = JNum 2, sparsities = [10, 10, 10],
        sparsitiesCalculatedThisGeneration = True \<rparr>)"
  unfolding generation3_state
  by (simp add: getSparsities_def calculateSparsities_def measureSparsity_def
        measureBehaviorDistance_def defaultBehaviorDistanceFunction_def
        distanceSquared_loop_def scenario_config_def)

lemma generation3_finalized:
  "archiveAndClear scenario_config (run scenario_config generation3 init) =
     (Inr (),
      \<lparr> behaviorArchive = [([10, 0], ''g2''), ([20, 0], ''g3'')], recentBehaviors = [],
        dimensionality = JNum 2, sparsities = [],
        sparsitiesCalculatedThisGeneration = False \<rparr>)"
  unfolding generation3_state
  by (simp add: archiveAndClear_def calculateSparsities_def
        measureSparsity_def measureBehaviorDistance_def defaultBehaviorDistanceFunction_def
        distanceSquared_loop_def pruneArchive_def getArchiveLength_def scenario_config_def)

lemma makeArchive_asymmetric: "makeArchive asymmetric_options = Inr (asymmetric_config, init)"
  by (simp add: makeArchive_def asymmetric_options_def asymmetric_config_def read_nat_def)

lemma makeArchive_absolute: "makeArchive absolute_options = Inr (absolute_config, init)"
  by (simp add: makeArchive_def absolute_options_def absolute_config_def read_nat_def)

lemma line_generation1_state:
  "run cfg line_generation1 init =
     \<lparr> behaviorArchive = [], recentBehaviors = [([1], ''a''), ([10], ''b'')],
       dimensionality = JNum 1, sparsities = [],
       sparsitiesCalculatedThisGeneration = False \<rparr>"
  by (simp add: line_generation1_def noteBehavior_def init_def)

lemma line_generation1_sparsities:
  "getSparsities asymmetric_config (run asymmetric_config line_generation1 init) =
     (Inr [8, - 19],
      \<lparr> behaviorArchive = [], recentBehaviors = [([1], ''a''), ([10], ''b'')],
        dimensionality = JNum 1, sparsities = [8, - 19],
        sparsitiesCalculatedThisGeneration = True \<rparr>)"
  unfolding line_generation1_state
  by (simp add: getSparsities_def calculateSparsities_def measureSparsity_def
        measureBehaviorDistance_def asymmetric_config_def asymmetric_distance_def)

lemma line_generation2_state:
  "run asymmetric_config (line_generation1 @ ArchiveAndClear # line_generation2) init =
     \<lparr> behaviorArchive = [([1], ''a'')],
       recentBehaviors = [([4], ''c''), ([7], ''d''), ([3], ''e'')],
       dimensionality = JNum 1, sparsities = [],
       sparsitiesCalculatedThisGeneration = False \<rparr>"
  unfolding run_append line_generation1_state
  by (simp add: line_generation2_def noteBehavior_def archiveAndClear_def
        calculateSparsities_def measureSparsity_def measureBehaviorDistance_def
        pruneArchive_def asymmetric_config_def asymmetric_distance_def)

lemma line_generation2_sparsities:
  "getSparsities asymmetric_config
     (run asymmetric_config (line_generation1 @ ArchiveAndClear # line_generation2) init) =
     (Inr [- 6, - 12, - (7 / 2)],
      \<lparr> behaviorArchive = [([1], ''a'')],
        recentBehaviors = [([4], ''c''), ([7], ''d''), ([3], ''e'')],
        dimensionality = JNum 1, sparsities = [- 6, - 12, - (7 / 2)],
        sparsitiesCalculatedThisGeneration = True \<rparr>)"
  unfolding line_generation2_state
  by (simp add: getSparsities_def calculateSparsities_def measureSparsity_def
        measureBehaviorDistance_def asymmetric_config_def asymmetric_distance_def)

lemma generation4_state:
  "run scenario_config (generation3 @ ArchiveAndClear # generation4) init =
     \<lparr> behaviorArchive = [([10, 0], ''g2''), ([20, 0], ''g3'')],
       recentBehaviors = [([10, 0], ''g4''), ([40, 0], ''g5'')],
       dimensionality = JNum 2, sparsities = [],
       sparsitiesCalculatedThisGeneration = False \<rparr>"
  unfolding run_append run_Cons step.simps generation3_finalized snd_conv
  by (simp add: generation4_def noteBehavior_def)

lemma generation4_sparsities:
  "getSparsities scenario_config
     (run scenario_config (generation3 @ ArchiveAndClear # generation4) init) =
     (Inr [0, 20],
      \<lparr> behaviorArchive = [([10, 0], ''g2''), ([20, 0], ''g3'')],
        recentBehaviors = [([10, 0], ''g4''), ([40, 0], ''g5'')],
        dimensionality = JNum 2, sparsities = [0, 20],
        sparsitiesCalculatedThisGeneration = True \<rparr>)"
  unfolding generation4_state
  by (simp add: getSparsities_def calculateSparsities_def measureSparsity_def
        measureBehaviorDistance_def defaultBehaviorDistanceFunction_def
        distanceSquared_loop_def scenario_config_def)

lemma generation4_finalized:
  "archiveAndClear scenario_config
     (run scenario_config (generation3 @ ArchiveAndClear # generation4) init) =
     (Inr (),
      \<lparr> behaviorArchive = [([20, 0], ''g3''), ([40, 0], ''g5'')], recentBehaviors = [],
        dimensionality = JNum 2, sparsities = [],
        sparsitiesCalculatedThisGeneration = False \<rparr>)"
  unfolding generation4_state
  by (simp add: archiveAndClear_def calculateSparsities_def
        measureSparsity_def measureBehaviorDistance_def defaultBehaviorDistanceFunction_def
        distanceSquared_loop_def pruneArchive_def getArchiveLength_def scenario_config_def)

lemma lone_observation_state:
  "run cfg [NoteBehavior (JArr [0, 0]) (JStr ''g1'')] init =
     \<lparr> behaviorArchive = [], recentBehaviors = [([0, 0], ''g1'')],
       dimensionality = JNum 2, sparsities = [],
       sparsitiesCalculatedThisGeneration = False \<rparr>"
  by (simp add: noteBehavior_def init_def)

lemma archiveAndClear_post:
  assumes "archiveAndClear cfg s = (Inr u, s')"
  shows "\<exists>sp s1. getSparsities cfg s = (Inr sp, s1) \<and>
           recentBehaviors s \<noteq> [] \<and> length sp = length (recentBehaviors s) \<and>
           behaviorArchive s' =
             drop_oldest (maxArchiveSize cfg)
               (behaviorArchive s @ novel_observations cfg (recentBehaviors s) sp) \<and>
           recentBehaviors s' = [] \<and> sparsities s' = [] \<and>
           \<not> sparsitiesCalculatedThisGeneration s'"
proof -
  obtain r s1 where c: "calculateSparsities cfg s = (r, s1)" by fastforce
  show ?thesis
  proof (cases r)
    case (Inl e)
    with c assms show ?thesis by (simp add: archiveAndClear_Inl)
  next
    case (Inr v)
    with c have c': "calculateSparsities cfg s = (Inr (), s1)" by simp
    from calculateSparsities_frame(4)[OF c'] have
      "recentBehaviors s \<noteq> []" "length (sparsities s1) = length (recentBehaviors s)" by simp_all
    moreover have "getSparsities cfg s = (Inr (sparsities s1), s1)"
      using c' by (simp add: getSparsities_Inr)
    ultimately show ?thesis using assms archiveAndClear_Inr[OF c'] by auto
  qed
qed

lemma getSparsities_repeat:
  assumes "getSparsities cfg s = (Inr sp, s1)"
  shows "getSparsities cfg s1 = (Inr sp, s1) \<and> sparsities s1 = sp \<and>
         length sp = length (recentBehaviors s1)"
proof -
  from assms have c: "calculateSparsities cfg s = (Inr (), s1)" and sp: "sp = sparsities s1"
    by (simp_all add: getSparsities_Inr)
  from calculateSparsities_frame[OF c] have
    "sparsitiesCalculatedThisGeneration s1" "recentBehaviors s1 \<noteq> []"
    "length (sparsities s1) = length (recentBehaviors s1)" by simp_all
  from calculateSparsities_cached[OF this] show ?thesis
    using sp \<open>length (sparsities s1) = length (recentBehaviors s1)\<close>
    by (simp add: getSparsities_Inr)
qed

section \<open>The claims\<close>

text \<open>
  C1 (amended). In every state that an instance built by \<^verbatim>\<open>makeArchive\<close> reaches,
  for every position \<open>i\<close> of the buffer that has a candidate distance,
  \<^verbatim>\<open>getSparsities\<close> returns, and the sparsity it returns for position \<open>i\<close> is the
  arithmetic mean of the \<open>k_eff\<close> smallest of the values that the distance function
  gives when it is called with the other entry (every archived entry, every other
  observation of the buffer) first and the observation \<open>B\<close> at \<open>i\<close> second,
  \<open>k_eff\<close> the smaller of \<^verbatim>\<open>kNearestNeighbors\<close> and the number of candidates. For
  a symmetric distance function of the caller, and for the default Euclidean distance,
  these are the distances from \<open>B\<close>; for a function that is not symmetric they are not.
\<close>

theorem sparsity_is_mean_of_nearest:
  assumes "makeArchive options = Inr (cfg, s0)"
    and "s = run cfg calls s0"
    and "i < length (recentBehaviors s)"
    and "measured_distances cfg s i \<noteq> {#}"
  shows "(\<exists>sp s'. getSparsities cfg s = (Inr sp, s') \<and>
            length sp = length (recentBehaviors s) \<and>
            sp ! i = mean_of_k_smallest (kNearestNeighbors cfg) (measured_distances cfg s i)) \<and>
         ((\<forall>f. behaviorDistanceFunction cfg = Some f \<longrightarrow> (\<forall>a b. f a b = f b a)) \<longrightarrow>
            measured_distances cfg s i = candidate_distances cfg s i)"
proof
  have w: "well_formed cfg s"
    using makeArchive_Inr(1)[OF assms(1)] reachable_wf[of cfg calls] assms(2) by simp
  then have sd: "same_dimension s" by (simp add: well_formed_def)
  have k: "0 < kNearestNeighbors cfg" using makeArchive_Inr(2)[OF assms(1)] .
  have "size (measured_distances cfg s i) \<noteq> 0" using assms(4) by simp
  then have two: "2 \<le> length (behaviorArchive s) + length (recentBehaviors s)"
    using assms(3) by (simp add: size_measured_distances)
  have ne: "recentBehaviors s \<noteq> []" using assms(3) by auto
  from calculateSparsities_succeeds[OF w ne k two] obtain s' where
    "calculateSparsities cfg s = (Inr (), s')" by blast
  then have g: "getSparsities cfg s = (Inr (sparsities s'), s')"
    by (simp add: getSparsities_Inr)
  let ?sp = "sparsities s'"
  let ?ds = "code_candidates cfg s i"
  let ?k = "min (kNearestNeighbors cfg) (length ?ds)"
  have "?k \<noteq> 0" using k two assms(3) by (simp add: length_code_candidates)
  with getSparsities_values(2)[OF w g assms(3)] measureSparsity_closed[OF sd assms(3), of cfg]
  have "?sp ! i = sum_list (take ?k (sort ?ds)) / real ?k" by (simp add: Let_def)
  also have "\<dots> = mean_of_k_smallest (kNearestNeighbors cfg) (mset ?ds)"
    by (simp only: mean_of_k_smallest_mset)
  also have "\<dots> = mean_of_k_smallest (kNearestNeighbors cfg) (measured_distances cfg s i)"
    by (simp only: mset_code_candidates_measured[OF assms(3)])
  finally show "\<exists>sp s'. getSparsities cfg s = (Inr sp, s') \<and>
            length sp = length (recentBehaviors s) \<and>
            sp ! i = mean_of_k_smallest (kNearestNeighbors cfg) (measured_distances cfg s i)"
    using g getSparsities_values(1)[OF w g] by blast
  show "(\<forall>f. behaviorDistanceFunction cfg = Some f \<longrightarrow> (\<forall>a b. f a b = f b a)) \<longrightarrow>
            measured_distances cfg s i = candidate_distances cfg s i"
    using measured_distances_symmetric[OF sd assms(3)] by blast
qed

theorem sparsity_is_mean_of_nearest_witness:
  "makeArchive asymmetric_options = Inr (asymmetric_config, init) \<and>
   0 < length (recentBehaviors
         (run asymmetric_config (line_generation1 @ ArchiveAndClear # line_generation2) init)) \<and>
   measured_distances asymmetric_config
     (run asymmetric_config (line_generation1 @ ArchiveAndClear # line_generation2) init) 0
     = {#- 7, - 1, - 5#} \<and>
   fst (getSparsities asymmetric_config
         (run asymmetric_config (line_generation1 @ ArchiveAndClear # line_generation2) init))
     = Inr [- 6, - 12, - (7 / 2)] \<and>
   mean_of_k_smallest 2 {#- 7, - 1, - 5#} = - 6 \<and>
   makeArchive absolute_options = Inr (absolute_config, init) \<and>
   (\<forall>a b. absolute_distance a b = absolute_distance b a) \<and>
   measured_distances absolute_config (run absolute_config line_generation1 init) 0
     = candidate_distances absolute_config (run absolute_config line_generation1 init) 0"
proof -
  let ?s = "run asymmetric_config (line_generation1 @ ArchiveAndClear # line_generation2) init"
  have i: "0 < length (recentBehaviors ?s)" by (simp add: line_generation2_state)
  have md: "measured_distances asymmetric_config ?s 0 = {#- 7, - 1, - 5#}"
    unfolding line_generation2_state
    by (simp add: measured_distances_def distance_def asymmetric_config_def
          asymmetric_distance_def)
  then have ne: "measured_distances asymmetric_config ?s 0 \<noteq> {#}" by simp
  from sparsity_is_mean_of_nearest[where calls = "line_generation1 @ ArchiveAndClear # line_generation2"
      and i = 0, OF makeArchive_asymmetric refl i ne]
  obtain sp s' where g: "getSparsities asymmetric_config ?s = (Inr sp, s')"
    and v: "sp ! 0 = mean_of_k_smallest (kNearestNeighbors asymmetric_config)
                    (measured_distances asymmetric_config ?s 0)"
    by blast
  from g have "sp = [- 6, - 12, - (7 / 2)]" by (simp add: line_generation2_sparsities)
  with v md have mean: "mean_of_k_smallest 2 {#- 7, - 1, - 5#} = - 6"
    by (simp add: asymmetric_config_def)
  let ?t = "run absolute_config line_generation1 init"
  have sym: "\<forall>a b. absolute_distance a b = absolute_distance b a"
    by (simp add: absolute_distance_def abs_minus_commute)
  then have sym': "\<forall>f. behaviorDistanceFunction absolute_config = Some f \<longrightarrow>
                     (\<forall>a b. f a b = f b a)"
    by (simp add: absolute_config_def)
  have j: "0 < length (recentBehaviors ?t)" by (simp add: line_generation1_state)
  have ne': "measured_distances absolute_config ?t 0 \<noteq> {#}"
    unfolding line_generation1_state by (simp add: measured_distances_def)
  from sparsity_is_mean_of_nearest[where calls = line_generation1 and i = 0,
      OF makeArchive_absolute refl j ne'] sym'
  have eq: "measured_distances absolute_config ?t 0 = candidate_distances absolute_config ?t 0"
    by blast
  show ?thesis
    using makeArchive_asymmetric i md mean makeArchive_absolute sym eq
    by (simp add: line_generation2_sparsities)
qed

theorem asymmetric_distance_is_measured_towards_observation:
  "makeArchive asymmetric_options = Inr (asymmetric_config, init) \<and>
   fst (getSparsities asymmetric_config (run asymmetric_config line_generation1 init))
     = Inr [8, - 19] \<and>
   candidate_distances asymmetric_config (run asymmetric_config line_generation1 init) 0
     = {#- 19#} \<and>
   mean_of_k_smallest (kNearestNeighbors asymmetric_config)
     (candidate_distances asymmetric_config (run asymmetric_config line_generation1 init) 0)
     = - 19 \<and>
   [8, - 19 :: real] ! 0 \<noteq> - 19"
proof -
  have c: "candidate_distances asymmetric_config (run asymmetric_config line_generation1 init) 0
     = {#- 19#}"
    unfolding line_generation1_state
    by (simp add: candidate_distances_def distance_def asymmetric_config_def
          asymmetric_distance_def)
  have "mean_of_k_smallest (kNearestNeighbors asymmetric_config) {#- 19#} = - 19"
    by (simp add: mean_of_k_smallest_def asymmetric_config_def)
  then show ?thesis using c makeArchive_asymmetric
    by (simp add: line_generation1_sparsities)
qed

text \<open>
  C2 (amended). In every state that an instance built by \<^verbatim>\<open>makeArchive\<close> reaches
  with a buffer that is not empty and has a candidate distance (the archive is not
  empty, or the buffer holds at least two observations), \<^verbatim>\<open>archiveAndClear\<close>
  returns; afterwards the archive is the previous archive extended by exactly the
  buffered observations whose sparsity (as \<^verbatim>\<open>getSparsities\<close> returns it) is at least
  \<^verbatim>\<open>archiveThreshold\<close>, in recording order, with the oldest entries dropped until
  the length is at most \<^verbatim>\<open>maxArchiveSize\<close>, and the buffer, the cached sparsities
  and the ordering guard are cleared. A buffer that holds a lone first observation is
  not empty, yet \<^verbatim>\<open>archiveAndClear\<close> throws on it and clears nothing.
\<close>

theorem finalize_archives_novel_in_order:
  assumes "makeArchive options = Inr (cfg, s0)"
    and "s = run cfg calls s0"
    and "recentBehaviors s \<noteq> []"
    and "behaviorArchive s \<noteq> [] \<or> 2 \<le> length (recentBehaviors s)"
  shows "\<exists>sp s1 s'. getSparsities cfg s = (Inr sp, s1) \<and>
           length sp = length (recentBehaviors s) \<and>
           archiveAndClear cfg s = (Inr (), s') \<and>
           behaviorArchive s' =
             drop_oldest (maxArchiveSize cfg)
               (behaviorArchive s @ novel_observations cfg (recentBehaviors s) sp) \<and>
           recentBehaviors s' = [] \<and> sparsities s' = [] \<and>
           \<not> sparsitiesCalculatedThisGeneration s'"
proof -
  have w: "well_formed cfg s"
    using makeArchive_Inr(1)[OF assms(1)] reachable_wf[of cfg calls] assms(2) by simp
  have k: "0 < kNearestNeighbors cfg" using makeArchive_Inr(2)[OF assms(1)] .
  have two: "2 \<le> length (behaviorArchive s) + length (recentBehaviors s)"
    using assms(3,4) by (cases "behaviorArchive s"; cases "recentBehaviors s") auto
  from archiveAndClear_returns[OF w assms(3) k two] obtain s' where
    a: "archiveAndClear cfg s = (Inr (), s')" by blast
  from archiveAndClear_post[OF a] show ?thesis using a by blast
qed

theorem finalize_archives_novel_in_order_witness:
  "makeArchive scenario_options = Inr (scenario_config, init) \<and>
   recentBehaviors (run scenario_config (generation3 @ ArchiveAndClear # generation4) init)
     = [([10, 0], ''g4''), ([40, 0], ''g5'')] \<and>
   behaviorArchive (run scenario_config (generation3 @ ArchiveAndClear # generation4) init)
     = [([10, 0], ''g2''), ([20, 0], ''g3'')] \<and>
   fst (getSparsities scenario_config
          (run scenario_config (generation3 @ ArchiveAndClear # generation4) init))
     = Inr [0, 20] \<and>
   fst (archiveAndClear scenario_config
          (run scenario_config (generation3 @ ArchiveAndClear # generation4) init)) = Inr () \<and>
   behaviorArchive (snd (archiveAndClear scenario_config
          (run scenario_config (generation3 @ ArchiveAndClear # generation4) init)))
     = drop_oldest (enat 2) [([10, 0], ''g2''), ([20, 0], ''g3''), ([40, 0], ''g5'')] \<and>
   behaviorArchive (snd (archiveAndClear scenario_config
          (run scenario_config (generation3 @ ArchiveAndClear # generation4) init)))
     = [([20, 0], ''g3''), ([40, 0], ''g5'')] \<and>
   recentBehaviors (snd (archiveAndClear scenario_config
          (run scenario_config (generation3 @ ArchiveAndClear # generation4) init))) = [] \<and>
   sparsities (snd (archiveAndClear scenario_config
          (run scenario_config (generation3 @ ArchiveAndClear # generation4) init))) = []"
proof -
  let ?s = "run scenario_config (generation3 @ ArchiveAndClear # generation4) init"
  have ne: "recentBehaviors ?s \<noteq> []" by (simp add: generation4_state)
  have ca: "behaviorArchive ?s \<noteq> [] \<or> 2 \<le> length (recentBehaviors ?s)"
    by (simp add: generation4_state)
  from finalize_archives_novel_in_order[where calls = "generation3 @ ArchiveAndClear # generation4",
      OF makeArchive_scenario refl ne ca]
  obtain sp s1 s' where
    g: "getSparsities scenario_config ?s = (Inr sp, s1)"
    and a: "archiveAndClear scenario_config ?s = (Inr (), s')"
    and b: "behaviorArchive s' =
             drop_oldest (maxArchiveSize scenario_config)
               (behaviorArchive ?s @ novel_observations scenario_config (recentBehaviors ?s) sp)"
    and r: "recentBehaviors s' = []" "sparsities s' = []"
    by blast
  from g have sp: "sp = [0, 20]" by (simp add: generation4_sparsities)
  have s': "snd (archiveAndClear scenario_config ?s) = s'" using a by simp
  have c1: "recentBehaviors ?s = [([10, 0], ''g4''), ([40, 0], ''g5'')]"
    by (simp add: generation4_state)
  have c2: "behaviorArchive ?s = [([10, 0], ''g2''), ([20, 0], ''g3'')]"
    by (simp add: generation4_state)
  have c3: "fst (getSparsities scenario_config ?s) = Inr [0, 20]"
    by (simp add: generation4_sparsities)
  have c4: "fst (archiveAndClear scenario_config ?s) = Inr ()" using a by simp
  have b': "behaviorArchive s' =
          drop_oldest (enat 2) [([10, 0], ''g2''), ([20, 0], ''g3''), ([40, 0], ''g5'')]"
    using b unfolding sp generation4_state
    by (simp add: novel_observations_def scenario_config_def)
  have c5: "behaviorArchive (snd (archiveAndClear scenario_config ?s)) =
          drop_oldest (enat 2) [([10, 0], ''g2''), ([20, 0], ''g3''), ([40, 0], ''g5'')]"
    using b' by (simp only: s')
  have c6: "behaviorArchive (snd (archiveAndClear scenario_config ?s))
     = [([20, 0], ''g3''), ([40, 0], ''g5'')]"
    by (simp add: generation4_finalized)
  have c7: "recentBehaviors (snd (archiveAndClear scenario_config ?s)) = []"
    and c8: "sparsities (snd (archiveAndClear scenario_config ?s)) = []"
    using r unfolding s' by simp_all
  show ?thesis
    by (intro conjI) (rule makeArchive_scenario c1 c2 c3 c4 c5 c6 c7 c8)+
qed

theorem finalize_fails_on_lone_first_observation:
  "recentBehaviors (run scenario_config [NoteBehavior (JArr [0, 0]) (JStr ''g1'')] init)
     = [([0, 0], ''g1'')] \<and>
   archiveAndClear scenario_config
     (run scenario_config [NoteBehavior (JArr [0, 0]) (JStr ''g1'')] init)
     = (Inl TypeError, run scenario_config [NoteBehavior (JArr [0, 0]) (JStr ''g1'')] init)"
  unfolding lone_observation_state
  by (simp add: archiveAndClear_def calculateSparsities_def measureSparsity_def
        scenario_config_def)

text \<open>
  C3. Whenever a call returns control, normally or by throwing, the archive of an
  instance is no longer than \<^verbatim>\<open>maxArchiveSize\<close>. No call other than
  \<^verbatim>\<open>archiveAndClear\<close> changes the archive. \<^verbatim>\<open>pruneArchive\<close> removes exactly
  the first \<open>length - maxArchiveSize\<close> entries (none when the archive is short enough),
  and a finalization that returns leaves the archive after the append without that
  many of its earliest entries.
\<close>

theorem archive_never_exceeds_max:
  "enat (length (behaviorArchive (run cfg calls init))) \<le> maxArchiveSize cfg \<and>
   (\<not> is_finalize_call c \<longrightarrow> behaviorArchive (step cfg c s) = behaviorArchive s) \<and>
   (maxArchiveSize cfg = enat m \<longrightarrow>
      behaviorArchive (pruneArchive cfg s)
        = drop (length (behaviorArchive s) - m) (behaviorArchive s)) \<and>
   (maxArchiveSize cfg = enat m \<and> archiveAndClear cfg s = (Inr u, s') \<longrightarrow>
      (\<exists>sp s1. getSparsities cfg s = (Inr sp, s1) \<and>
         behaviorArchive s' =
           drop (length (behaviorArchive s @ novel_observations cfg (recentBehaviors s) sp) - m)
             (behaviorArchive s @ novel_observations cfg (recentBehaviors s) sp)))"
proof (intro conjI impI)
  show "enat (length (behaviorArchive (run cfg calls init))) \<le> maxArchiveSize cfg"
    by (rule run_bounded) (simp add: init_def zero_enat_def[symmetric])
next
  assume "\<not> is_finalize_call c"
  then show "behaviorArchive (step cfg c s) = behaviorArchive s"
    by (rule step_archive_unchanged)
next
  assume "maxArchiveSize cfg = enat m"
  then show "behaviorArchive (pruneArchive cfg s)
        = drop (length (behaviorArchive s) - m) (behaviorArchive s)"
    by (simp add: pruneArchive_eq drop_oldest_enat)
next
  assume a: "maxArchiveSize cfg = enat m \<and> archiveAndClear cfg s = (Inr u, s')"
  obtain r s1 where c: "calculateSparsities cfg s = (r, s1)" by fastforce
  show "\<exists>sp s1. getSparsities cfg s = (Inr sp, s1) \<and>
         behaviorArchive s' =
           drop (length (behaviorArchive s @ novel_observations cfg (recentBehaviors s) sp) - m)
             (behaviorArchive s @ novel_observations cfg (recentBehaviors s) sp)"
  proof (cases r)
    case (Inl e)
    with c a show ?thesis by (simp add: archiveAndClear_Inl)
  next
    case (Inr v)
    with c have c': "calculateSparsities cfg s = (Inr (), s1)" by simp
    then have "getSparsities cfg s = (Inr (sparsities s1), s1)"
      by (simp add: getSparsities_Inr)
    then show ?thesis using a archiveAndClear_Inr[OF c'] by (auto simp: drop_oldest_enat)
  qed
qed

theorem archive_never_exceeds_max_witness:
  "enat (length (behaviorArchive
      (run scenario_config (generation3 @ [ArchiveAndClear]) init))) \<le> enat 2 \<and>
   \<not> is_finalize_call GetSparsities \<and>
   behaviorArchive (step scenario_config GetSparsities (run scenario_config generation3 init))
     = [] \<and>
   maxArchiveSize scenario_config = enat 2 \<and>
   behaviorArchive (pruneArchive scenario_config
      (init\<lparr>behaviorArchive := [([0, 0], ''g1''), ([10, 0], ''g2''), ([20, 0], ''g3'')]\<rparr>))
     = [([10, 0], ''g2''), ([20, 0], ''g3'')] \<and>
   fst (archiveAndClear scenario_config (run scenario_config generation3 init)) = Inr () \<and>
   behaviorArchive (snd (archiveAndClear scenario_config (run scenario_config generation3 init)))
     = drop (3 - 2) [([0, 0], ''g1''), ([10, 0], ''g2''), ([20, 0], ''g3'')]"
proof -
  let ?s = "run scenario_config generation3 init"
  let ?f = "\<lparr> behaviorArchive = [([10, 0], ''g2''), ([20, 0], ''g3'')], recentBehaviors = [],
        dimensionality = JNum 2, sparsities = [],
        sparsitiesCalculatedThisGeneration = False \<rparr>"
  let ?t = "init\<lparr>behaviorArchive := [([0, 0], ''g1''), ([10, 0], ''g2''), ([20, 0], ''g3'')]\<rparr>"
  have m: "maxArchiveSize scenario_config = enat 2" by (simp add: scenario_config_def)
  note t1 = archive_never_exceeds_max[of scenario_config "generation3 @ [ArchiveAndClear]"
      GetSparsities ?s 2 "()" ?f]
  note t2 = archive_never_exceeds_max[of scenario_config "[]" GetArchive ?t 2 "()" ?t]
  have bound: "enat (length (behaviorArchive
      (run scenario_config (generation3 @ [ArchiveAndClear]) init))) \<le> enat 2"
    using t1 m by simp
  have frame: "behaviorArchive (step scenario_config GetSparsities ?s) = []"
    using t1 by (simp add: generation3_state)
  have prune: "behaviorArchive (pruneArchive scenario_config ?t)
     = [([10, 0], ''g2''), ([20, 0], ''g3'')]"
    using t2 m by (simp add: init_def)
  from t1 m generation3_finalized obtain sp s1 where
    g: "getSparsities scenario_config ?s = (Inr sp, s1)"
    and b: "behaviorArchive ?f =
           drop (length (behaviorArchive ?s @
                         novel_observations scenario_config (recentBehaviors ?s) sp) - 2)
             (behaviorArchive ?s @ novel_observations scenario_config (recentBehaviors ?s) sp)"
    by blast
  from g have sp: "sp = [10, 10, 10]" by (simp add: generation3_sparsities)
  have fin: "behaviorArchive ?f
     = drop (3 - 2) [([0, 0], ''g1''), ([10, 0], ''g2''), ([20, 0], ''g3'')]"
    using b unfolding sp generation3_state
    by (simp add: novel_observations_def scenario_config_def)
  show ?thesis using bound frame m prune fin by (simp add: generation3_finalized)
qed

text \<open>
  C4. Once \<^verbatim>\<open>getSparsities\<close> has returned the sparsities of the buffer, and through
  any later calls other than \<^verbatim>\<open>archiveAndClear\<close>, every \<^verbatim>\<open>noteBehavior\<close> call
  throws and leaves the buffer as it was. In that state \<^verbatim>\<open>archiveAndClear\<close>
  returns and clears the guard, after which \<^verbatim>\<open>noteBehavior\<close> accepts again every
  vector of the dimensionality of the instance with a string as genome.
\<close>

theorem no_record_while_computed:
  assumes "getSparsities cfg s = (Inr sp, s1)"
    and "\<forall>c\<in>set calls. \<not> is_finalize_call c"
    and "s2 = run cfg calls s1"
  shows "(\<exists>e. fst (noteBehavior s2 behavior genome) = Inl e) \<and>
         recentBehaviors (snd (noteBehavior s2 behavior genome)) = recentBehaviors s \<and>
         (\<exists>s3. archiveAndClear cfg s2 = (Inr (), s3) \<and>
            \<not> sparsitiesCalculatedThisGeneration s3 \<and>
            (\<forall>v x. is_undefined (dimensionality s3) \<or>
                    dimensionality s3 = JNum (real (length v)) \<longrightarrow>
               noteBehavior s3 (JArr v) (JStr x)
                 = (Inr (), s3\<lparr>dimensionality := JNum (real (length v)),
                                recentBehaviors := [(v, x)]\<rparr>)))"
proof -
  from assms(1) have c: "calculateSparsities cfg s = (Inr (), s1)"
    by (simp add: getSparsities_Inr)
  from calculateSparsities_frame[OF c] have c1: "computed s1"
    and r1: "recentBehaviors s1 = recentBehaviors s"
    by (simp_all add: computed_def)
  from run_computed[OF c1 assms(2), of cfg] have c2: "computed s2"
    and r2: "recentBehaviors s2 = recentBehaviors s"
    using assms(3) r1 by simp_all
  have fl: "sparsitiesCalculatedThisGeneration s2" using c2 by (simp add: computed_def)
  have cc: "calculateSparsities cfg s2 = (Inr (), s2)"
    using c2 by (simp add: computed_def calculateSparsities_cached)
  let ?s3 = "s2\<lparr>behaviorArchive :=
                       drop_oldest (maxArchiveSize cfg)
                         (behaviorArchive s2 @
                          novel_observations cfg (recentBehaviors s2) (sparsities s2)),
                     recentBehaviors := [], sparsities := [],
                     sparsitiesCalculatedThisGeneration := False\<rparr>"
  have a: "archiveAndClear cfg s2 = (Inr (), ?s3)" by (rule archiveAndClear_Inr[OF cc])
  have "\<forall>v x. is_undefined (dimensionality ?s3) \<or>
                    dimensionality ?s3 = JNum (real (length v)) \<longrightarrow>
               noteBehavior ?s3 (JArr v) (JStr x)
                 = (Inr (), ?s3\<lparr>dimensionality := JNum (real (length v)),
                                recentBehaviors := [(v, x)]\<rparr>)"
    by (intro allI impI, subst noteBehavior_accepts) simp_all
  with a show ?thesis using noteBehavior_guard[OF fl, of behavior genome] r2 by simp
qed

theorem no_record_while_computed_witness:
  "fst (getSparsities scenario_config (run scenario_config generation1 init))
     = Inr [10, 10] \<and>
   \<not> is_finalize_call GetSparsities \<and> \<not> is_finalize_call GetArchiveLength \<and>
   \<not> is_finalize_call (NoteBehavior (JArr [5, 5]) (JStr ''g9'')) \<and>
   fst (noteBehavior
         (run scenario_config
            [NoteBehavior (JArr [5, 5]) (JStr ''g9''), GetSparsities, GetArchiveLength]
            (snd (getSparsities scenario_config (run scenario_config generation1 init))))
         (JArr [10, 0]) (JStr ''g3''))
     = Inl (AssertionError MustArchiveAndClearFirst) \<and>
   recentBehaviors (snd (noteBehavior
         (run scenario_config
            [NoteBehavior (JArr [5, 5]) (JStr ''g9''), GetSparsities, GetArchiveLength]
            (snd (getSparsities scenario_config (run scenario_config generation1 init))))
         (JArr [10, 0]) (JStr ''g3'')))
     = [([0, 0], ''g1''), ([10, 0], ''g2'')] \<and>
   fst (noteBehavior
         (snd (archiveAndClear scenario_config
            (run scenario_config
               [NoteBehavior (JArr [5, 5]) (JStr ''g9''), GetSparsities, GetArchiveLength]
               (snd (getSparsities scenario_config (run scenario_config generation1 init))))))
         (JArr [10, 0]) (JStr ''g3''))
     = Inr ()"
proof -
  let ?s = "run scenario_config generation1 init"
  let ?s1 = "\<lparr> behaviorArchive = [], recentBehaviors = [([0, 0], ''g1''), ([10, 0], ''g2'')],
        dimensionality = JNum 2, sparsities = [10, 10],
        sparsitiesCalculatedThisGeneration = True \<rparr>"
  let ?calls = "[NoteBehavior (JArr [5, 5]) (JStr ''g9''), GetSparsities, GetArchiveLength]"
  have nf: "\<forall>c\<in>set ?calls. \<not> is_finalize_call c" by simp
  have s2: "run scenario_config ?calls ?s1 = ?s1"
    by (simp add: noteBehavior_def getSparsities_def calculateSparsities_def)
  from no_record_while_computed[OF generation1_sparsities nf refl,
      of "JArr [10, 0]" "JStr ''g3''"]
  obtain e s3 where
    f: "fst (noteBehavior (run scenario_config ?calls ?s1) (JArr [10, 0]) (JStr ''g3'')) = Inl e"
    and r: "recentBehaviors (snd (noteBehavior (run scenario_config ?calls ?s1)
               (JArr [10, 0]) (JStr ''g3''))) = recentBehaviors ?s"
    and a: "archiveAndClear scenario_config (run scenario_config ?calls ?s1) = (Inr (), s3)"
    and n: "\<forall>v x. is_undefined (dimensionality s3) \<or>
                    dimensionality s3 = JNum (real (length v)) \<longrightarrow>
               noteBehavior s3 (JArr v) (JStr x)
                 = (Inr (), s3\<lparr>dimensionality := JNum (real (length v)),
                                recentBehaviors := [(v, x)]\<rparr>)"
    by blast
  have e: "e = AssertionError MustArchiveAndClearFirst"
    using f unfolding s2 by (simp add: noteBehavior_def)
  have "dimensionality s3 = JNum 2"
    using a unfolding s2
    by (auto simp: archiveAndClear_def calculateSparsities_def pruneArchive_def
          getArchiveLength_def scenario_config_def)
  then have ok: "fst (noteBehavior s3 (JArr [10, 0]) (JStr ''g3'')) = Inr ()"
    using n[rule_format, of "[10, 0]" "''g3''"] by simp
  show ?thesis
    using f r a ok e unfolding generation1_sparsities snd_conv fst_conv
    by (simp add: generation1_state)
qed

text \<open>
  C5 (amended). In every state that an instance built by \<^verbatim>\<open>makeArchive\<close> reaches
  with a buffer that is not empty and has a candidate distance, \<^verbatim>\<open>getSparsities\<close>
  returns, and a second call right after it returns the same sparsities and leaves the
  state as it is. The second call does not compute anything: in any state whose cached
  scores cover exactly the length of a buffer that is not empty, \<^verbatim>\<open>getSparsities\<close>
  returns the cached scores as they are, whatever they hold, and only sets the ordering
  guard. On a lone first observation both calls throw and no scores are returned.
\<close>

theorem getSparsities_cache_stable:
  assumes "makeArchive options = Inr (cfg, s0)"
    and "s = run cfg calls s0"
    and "recentBehaviors s \<noteq> []"
    and "behaviorArchive s \<noteq> [] \<or> 2 \<le> length (recentBehaviors s)"
  shows "(\<exists>sp s1. getSparsities cfg s = (Inr sp, s1) \<and>
            getSparsities cfg s1 = (Inr sp, s1) \<and>
            sparsities s1 = sp \<and> recentBehaviors s1 = recentBehaviors s \<and>
            length sp = length (recentBehaviors s)) \<and>
         (\<forall>t. recentBehaviors t \<noteq> [] \<and> length (sparsities t) = length (recentBehaviors t) \<longrightarrow>
            getSparsities cfg t
              = (Inr (sparsities t), t\<lparr>sparsitiesCalculatedThisGeneration := True\<rparr>))"
proof
  have w: "well_formed cfg s"
    using makeArchive_Inr(1)[OF assms(1)] reachable_wf[of cfg calls] assms(2) by simp
  have k: "0 < kNearestNeighbors cfg" using makeArchive_Inr(2)[OF assms(1)] .
  have two: "2 \<le> length (behaviorArchive s) + length (recentBehaviors s)"
    using assms(3,4) by (cases "behaviorArchive s"; cases "recentBehaviors s") auto
  from calculateSparsities_succeeds[OF w assms(3) k two] obtain s1 where
    c: "calculateSparsities cfg s = (Inr (), s1)" by blast
  then have g: "getSparsities cfg s = (Inr (sparsities s1), s1)"
    by (simp add: getSparsities_Inr)
  from getSparsities_repeat[OF g] calculateSparsities_frame(2)[OF c] g
  show "\<exists>sp s1. getSparsities cfg s = (Inr sp, s1) \<and>
            getSparsities cfg s1 = (Inr sp, s1) \<and>
            sparsities s1 = sp \<and> recentBehaviors s1 = recentBehaviors s \<and>
            length sp = length (recentBehaviors s)"
    by auto
  show "\<forall>t. recentBehaviors t \<noteq> [] \<and> length (sparsities t) = length (recentBehaviors t) \<longrightarrow>
            getSparsities cfg t
              = (Inr (sparsities t), t\<lparr>sparsitiesCalculatedThisGeneration := True\<rparr>)"
    by (simp add: getSparsities_def calculateSparsities_def)
qed

theorem getSparsities_cache_stable_witness:
  "makeArchive scenario_options = Inr (scenario_config, init) \<and>
   recentBehaviors (run scenario_config generation1 init)
     = [([0, 0], ''g1''), ([10, 0], ''g2'')] \<and>
   fst (getSparsities scenario_config (run scenario_config generation1 init))
     = Inr [10, 10] \<and>
   fst (getSparsities scenario_config
         (snd (getSparsities scenario_config (run scenario_config generation1 init))))
     = Inr [10, 10] \<and>
   snd (getSparsities scenario_config
         (snd (getSparsities scenario_config (run scenario_config generation1 init))))
     = snd (getSparsities scenario_config (run scenario_config generation1 init)) \<and>
   fst (getSparsities scenario_config
         \<lparr> behaviorArchive = [], recentBehaviors = [([0, 0], ''g1''), ([10, 0], ''g2'')],
           dimensionality = JNum 2, sparsities = [7, 7],
           sparsitiesCalculatedThisGeneration = False \<rparr>)
     = Inr [7, 7]"
proof -
  let ?s = "run scenario_config generation1 init"
  let ?t = "\<lparr> behaviorArchive = [], recentBehaviors = [([0, 0], ''g1''), ([10, 0], ''g2'')],
           dimensionality = JNum 2, sparsities = [7, 7],
           sparsitiesCalculatedThisGeneration = False \<rparr>"
  have ne: "recentBehaviors ?s \<noteq> []" by (simp add: generation1_state)
  have ca: "behaviorArchive ?s \<noteq> [] \<or> 2 \<le> length (recentBehaviors ?s)"
    by (simp add: generation1_state)
  note t = getSparsities_cache_stable[where calls = generation1,
      OF makeArchive_scenario refl ne ca]
  from t obtain sp s1 where
    g: "getSparsities scenario_config ?s = (Inr sp, s1)"
    and g2: "getSparsities scenario_config s1 = (Inr sp, s1)"
    by blast
  from g have sp: "sp = [10, 10]" and s1: "s1 = snd (getSparsities scenario_config ?s)"
    by (auto simp: generation1_sparsities)
  have c1: "recentBehaviors ?s = [([0, 0], ''g1''), ([10, 0], ''g2'')]"
    by (simp add: generation1_state)
  have c2: "fst (getSparsities scenario_config ?s) = Inr [10, 10]"
    by (simp add: generation1_sparsities)
  have again: "getSparsities scenario_config (snd (getSparsities scenario_config ?s))
                 = (Inr [10, 10], snd (getSparsities scenario_config ?s))"
    using g2 unfolding sp s1 .
  then have c3: "fst (getSparsities scenario_config (snd (getSparsities scenario_config ?s)))
                 = Inr [10, 10]"
    and c4: "snd (getSparsities scenario_config (snd (getSparsities scenario_config ?s)))
                 = snd (getSparsities scenario_config ?s)"
    by simp_all
  have pre: "recentBehaviors ?t \<noteq> [] \<and> length (sparsities ?t) = length (recentBehaviors ?t)"
    by simp
  from t have "\<forall>t. recentBehaviors t \<noteq> [] \<and> length (sparsities t) = length (recentBehaviors t) \<longrightarrow>
            getSparsities scenario_config t
              = (Inr (sparsities t), t\<lparr>sparsitiesCalculatedThisGeneration := True\<rparr>)"
    by blast
  from this[rule_format, OF pre] have c5: "fst (getSparsities scenario_config ?t) = Inr [7, 7]"
    by simp
  show ?thesis
    by (intro conjI) (rule makeArchive_scenario c1 c2 c3 c4 c5)+
qed

theorem getSparsities_fails_twice_on_lone_first_observation:
  "recentBehaviors (run scenario_config [NoteBehavior (JArr [0, 0]) (JStr ''g1'')] init)
     = [([0, 0], ''g1'')] \<and>
   getSparsities scenario_config
     (run scenario_config [NoteBehavior (JArr [0, 0]) (JStr ''g1'')] init)
     = (Inl TypeError, run scenario_config [NoteBehavior (JArr [0, 0]) (JStr ''g1'')] init) \<and>
   getSparsities scenario_config
     (snd (getSparsities scenario_config
        (run scenario_config [NoteBehavior (JArr [0, 0]) (JStr ''g1'')] init)))
     = (Inl TypeError, run scenario_config [NoteBehavior (JArr [0, 0]) (JStr ''g1'')] init)"
  unfolding lone_observation_state
  by (simp add: getSparsities_def calculateSparsities_def measureSparsity_def
        scenario_config_def)

text \<open>
  C6. The first \<^verbatim>\<open>noteBehavior\<close> call of an instance, made with a vector, fixes the
  dimensionality at the length of that vector, whatever calls come before and after it.
  From then on every \<^verbatim>\<open>noteBehavior\<close> call whose behavior has another length throws
  and changes nothing, and every observation in the buffer and in the archive has a
  vector of that length.
\<close>

theorem dimensionality_fixed_by_first_record:
  assumes "\<forall>c\<in>set pre. \<not> is_record_call c"
    and "s = run cfg (pre @ NoteBehavior (JArr v) genome # post) init"
  shows "dimensionality s = JNum (real (length v)) \<and>
         (\<forall>ob \<in> set (behaviorArchive s) \<union> set (recentBehaviors s).
            length (fst ob) = length v) \<and>
         (\<forall>b g. get_prop b ''length'' \<noteq> Inr (JNum (real (length v))) \<longrightarrow>
            (\<exists>e. fst (noteBehavior s b g) = Inl e) \<and> snd (noteBehavior s b g) = s)"
proof -
  have p: "run cfg pre init = init"
    by (rule run_without_record[OF assms(1)]) (simp add: init_def)
  let ?s1 = "snd (noteBehavior init (JArr v) genome)"
  have d1: "dimensionality ?s1 = JNum (real (length v))"
    by (rule noteBehavior_dim_set) (simp_all add: init_def)
  have s: "s = run cfg post ?s1" using assms(2) p by (simp add: run_append)
  have d: "dimensionality s = JNum (real (length v))"
    unfolding s using run_dim_keep[of ?s1 cfg post] d1 by simp
  have "well_formed cfg s" using assms(2) reachable_wf by simp
  then have "\<forall>ob \<in> set (behaviorArchive s) \<union> set (recentBehaviors s).
            length (fst ob) = length v"
    using d by (auto simp: well_formed_def same_dimension_def)
  then show ?thesis using d noteBehavior_rejects_length[OF d] by blast
qed

theorem dimensionality_fixed_by_first_record_witness:
  "\<not> is_record_call GetSparsities \<and> \<not> is_record_call ArchiveAndClear \<and>
   dimensionality (run scenario_config
      ([GetSparsities, ArchiveAndClear] @ NoteBehavior (JArr [0, 0]) (JStr ''g1'') #
       [NoteBehavior (JArr [10, 0]) (JStr ''g2''), ArchiveAndClear,
        NoteBehavior (JArr [10, 0]) (JStr ''g3'')]) init) = JNum 2 \<and>
   snd (noteBehavior (run scenario_config
      ([GetSparsities, ArchiveAndClear] @ NoteBehavior (JArr [0, 0]) (JStr ''g1'') #
       [NoteBehavior (JArr [10, 0]) (JStr ''g2''), ArchiveAndClear,
        NoteBehavior (JArr [10, 0]) (JStr ''g3'')]) init) (JArr [1, 2, 3]) (JStr ''g4''))
     = run scenario_config
      ([GetSparsities, ArchiveAndClear] @ NoteBehavior (JArr [0, 0]) (JStr ''g1'') #
       [NoteBehavior (JArr [10, 0]) (JStr ''g2''), ArchiveAndClear,
        NoteBehavior (JArr [10, 0]) (JStr ''g3'')]) init"
proof -
  have pre: "\<forall>c\<in>set [GetSparsities, ArchiveAndClear]. \<not> is_record_call c" by simp
  have len: "get_prop (JArr [1, 2, 3]) ''length'' \<noteq> Inr (JNum (real (length [0::real, 0])))"
    by simp
  from dimensionality_fixed_by_first_record[OF pre refl,
      of scenario_config "[0, 0]" "JStr ''g1''"
         "[NoteBehavior (JArr [10, 0]) (JStr ''g2''), ArchiveAndClear,
           NoteBehavior (JArr [10, 0]) (JStr ''g3'')]"]
  show ?thesis using len by simp
qed

text \<open>
  C7 (amended). \<^verbatim>\<open>makeArchive\<close> returns an instance for every options object whose
  \<^verbatim>\<open>kNearestNeighbors\<close> and \<^verbatim>\<open>archiveThreshold\<close> are positive integers, whose
  \<^verbatim>\<open>behaviorDistanceFunction\<close> is a function or absent and whose
  \<^verbatim>\<open>maxArchiveSize\<close> is a positive integer or absent. The threshold has to be an
  integer: the assertion of \<^verbatim>\<open>makeArchive\<close> tests it with \<^verbatim>\<open>util.isInt\<close>, and
  the threshold 2.5 is rejected.
\<close>

theorem makeArchive_accepts_positive_integers:
  assumes "typeof options = ''object''"
    and "get_prop options ''kNearestNeighbors'' = Inr (JNum (real k))" and "0 < k"
    and "get_prop options ''archiveThreshold'' = Inr (JNum (real t))" and "0 < t"
    and "get_prop options ''behaviorDistanceFunction'' = Inr d"
    and "d = JUndefined \<or> (\<exists>n f. d = JFun n f)"
    and "get_prop options ''maxArchiveSize'' = Inr m"
    and "m = JUndefined \<or> (\<exists>j>0. m = JNum (real j))"
  shows "\<exists>cfg. makeArchive options = Inr (cfg, init) \<and>
           kNearestNeighbors cfg = k \<and> archiveThreshold cfg = t"
  using assms by (auto simp: makeArchive_def read_nat_def)

theorem makeArchive_accepts_positive_integers_witness:
  "typeof scenario_options = ''object'' \<and>
   get_prop scenario_options ''kNearestNeighbors'' = Inr (JNum (real 1)) \<and>
   get_prop scenario_options ''archiveThreshold'' = Inr (JNum (real 2)) \<and>
   get_prop scenario_options ''behaviorDistanceFunction'' = Inr JUndefined \<and>
   get_prop scenario_options ''maxArchiveSize'' = Inr (JNum (real 2)) \<and>
   (\<exists>cfg. makeArchive scenario_options = Inr (cfg, init) \<and>
      kNearestNeighbors cfg = 1 \<and> archiveThreshold cfg = 2)"
proof -
  have h: "typeof scenario_options = ''object''"
    "get_prop scenario_options ''kNearestNeighbors'' = Inr (JNum (real 1))"
    "get_prop scenario_options ''archiveThreshold'' = Inr (JNum (real 2))"
    "get_prop scenario_options ''behaviorDistanceFunction'' = Inr JUndefined"
    "get_prop scenario_options ''maxArchiveSize'' = Inr (JNum (real 2))"
    by (simp_all add: scenario_options_def)
  have d: "JUndefined = JUndefined \<or> (\<exists>n f. JUndefined = JFun n f)" by simp
  have m: "JNum (real 2) = JUndefined \<or> (\<exists>j>0. JNum (real 2) = JNum (real j))" by auto
  from makeArchive_accepts_positive_integers[OF h(1) h(2) _ h(3) _ h(4) d h(5) m]
  show ?thesis using h by simp
qed

theorem makeArchive_rejects_fractional_threshold:
  "makeArchive (JObj [(''kNearestNeighbors'', JNum 1), (''archiveThreshold'', JNum (5 / 2))])
     = Inl (AssertionError ArchiveThresholdMustBePositiveInt)"
  by (simp add: makeArchive_def)

text \<open>
  C8. With an empty buffer \<^verbatim>\<open>getSparsities\<close> throws, and so does
  \<^verbatim>\<open>archiveAndClear\<close>; both leave the archive, and the whole state, as it was.
\<close>

theorem empty_generation_fails:
  assumes "recentBehaviors s = []"
  shows "getSparsities cfg s = (Inl (AssertionError RecentBehaviorCountMustBePositive), s) \<and>
         archiveAndClear cfg s = (Inl (AssertionError RecentBehaviorCountMustBePositive), s)"
  using assms
  by (simp add: getSparsities_Inl archiveAndClear_Inl calculateSparsities_empty)

theorem empty_generation_fails_witness:
  "recentBehaviors init = [] \<and>
   getSparsities scenario_config init
     = (Inl (AssertionError RecentBehaviorCountMustBePositive), init) \<and>
   archiveAndClear scenario_config init
     = (Inl (AssertionError RecentBehaviorCountMustBePositive), init)"
proof -
  have e: "recentBehaviors init = []" by (simp add: init_def)
  from empty_generation_fails[OF e, of scenario_config] show ?thesis using e by simp
qed

text \<open>
  C9. In a reachable state whose archive is empty and whose buffer holds one
  observation there is no candidate distance, and \<^verbatim>\<open>getSparsities\<close> throws instead
  of returning sparsities: \<^verbatim>\<open>reduce\<close> on the empty array of distances throws a
  TypeError before the division. The state stays as it was.
\<close>

theorem first_observation_sparsity_fails:
  assumes "s = run cfg calls init"
    and "behaviorArchive s = []" and "length (recentBehaviors s) = 1"
  shows "getSparsities cfg s = (Inl TypeError, s)"
proof -
  have w: "well_formed cfg s" using assms(1) reachable_wf by simp
  then have sd: "same_dimension s" by (simp add: well_formed_def)
  have i: "0 < length (recentBehaviors s)" using assms(3) by simp
  have m: "measureSparsity cfg s 0 = Inl TypeError"
    using assms(2,3) unfolding measureSparsity_closed[OF sd i] Let_def length_code_candidates[OF i]
    by simp
  have nf: "\<not> sparsitiesCalculatedThisGeneration s"
  proof
    assume "sparsitiesCalculatedThisGeneration s"
    with w have "list_all2 (\<lambda>j v. measureSparsity cfg s j = Inr v) [0..<1] (sparsities s)"
      using assms(3) by (simp add: well_formed_def cache_valid_def)
    then show False using m by (auto simp: list_all2_Cons1)
  qed
  with w have sp: "sparsities s = []" by (simp add: well_formed_def cache_valid_def)
  then have "s\<lparr>sparsities := []\<rparr> = s" by simp
  then show ?thesis
    using assms(3) sp m by (simp add: getSparsities_Inl calculateSparsities_def)
qed

theorem first_observation_sparsity_fails_witness:
  "behaviorArchive (run scenario_config [NoteBehavior (JArr [0, 0]) (JStr ''g1'')] init) = [] \<and>
   length (recentBehaviors
     (run scenario_config [NoteBehavior (JArr [0, 0]) (JStr ''g1'')] init)) = 1 \<and>
   getSparsities scenario_config
     (run scenario_config [NoteBehavior (JArr [0, 0]) (JStr ''g1'')] init)
     = (Inl TypeError, run scenario_config [NoteBehavior (JArr [0, 0]) (JStr ''g1'')] init)"
proof -
  let ?s = "run scenario_config [NoteBehavior (JArr [0, 0]) (JStr ''g1'')] init"
  have a: "behaviorArchive ?s = []" by (simp add: noteBehavior_def init_def)
  have l: "length (recentBehaviors ?s) = 1" by (simp add: noteBehavior_def init_def)
  from first_observation_sparsity_fails[OF refl a l] show ?thesis using a l by blast
qed

text \<open>
  C10 (amended). A \<^verbatim>\<open>noteBehavior\<close> call that throws leaves the buffer, the archive
  and the cached sparsities as they were. While the dimensionality is undefined, a call
  whose behavior has a \<^verbatim>\<open>length\<close> other than \<^verbatim>\<open>undefined\<close> (an array, a string)
  assigns it before any assertion runs, and it stays at that value through all later
  calls, also when the call itself throws. A call whose behavior has no \<^verbatim>\<open>length\<close>
  (a number, say) throws and leaves the dimensionality undefined, so that a later call
  establishes it; reading the \<^verbatim>\<open>length\<close> of \<^verbatim>\<open>null\<close> or \<^verbatim>\<open>undefined\<close> throws
  before anything is assigned.
\<close>

theorem failed_record_keeps_buffers:
  "(fst (noteBehavior s b g) = Inl e \<longrightarrow>
      recentBehaviors (snd (noteBehavior s b g)) = recentBehaviors s \<and>
      behaviorArchive (snd (noteBehavior s b g)) = behaviorArchive s \<and>
      sparsities (snd (noteBehavior s b g)) = sparsities s) \<and>
   (is_undefined (dimensionality s) \<and> get_prop b ''length'' = Inr l \<and> \<not> is_undefined l \<longrightarrow>
      dimensionality (run cfg calls (snd (noteBehavior s b g))) = l) \<and>
   (is_undefined (dimensionality s) \<and> get_prop b ''length'' = Inr l \<and> is_undefined l \<longrightarrow>
      (\<exists>e'. noteBehavior s b g = (Inl e', s\<lparr>dimensionality := l\<rparr>))) \<and>
   (is_undefined (dimensionality s) \<and> get_prop b ''length'' = Inl e \<longrightarrow>
      noteBehavior s b g = (Inl e, s))"
proof (intro conjI impI)
  assume "fst (noteBehavior s b g) = Inl e"
  then show "recentBehaviors (snd (noteBehavior s b g)) = recentBehaviors s"
    by (rule noteBehavior_fail)
next
  show "behaviorArchive (snd (noteBehavior s b g)) = behaviorArchive s"
    by (rule noteBehavior_frame)
next
  show "sparsities (snd (noteBehavior s b g)) = sparsities s"
    by (rule noteBehavior_frame)
next
  assume a: "is_undefined (dimensionality s) \<and> get_prop b ''length'' = Inr l \<and> \<not> is_undefined l"
  then have "dimensionality (snd (noteBehavior s b g)) = l"
    using noteBehavior_dim_set by blast
  with a show "dimensionality (run cfg calls (snd (noteBehavior s b g))) = l"
    using run_dim_keep[of "snd (noteBehavior s b g)" cfg calls] by simp
next
  assume "is_undefined (dimensionality s) \<and> get_prop b ''length'' = Inr l \<and> is_undefined l"
  then show "\<exists>e'. noteBehavior s b g = (Inl e', s\<lparr>dimensionality := l\<rparr>)"
    by (cases b) (auto simp: noteBehavior_def is_undefined_iff split: if_splits)
next
  assume "is_undefined (dimensionality s) \<and> get_prop b ''length'' = Inl e"
  then show "noteBehavior s b g = (Inl e, s)"
    by (simp add: noteBehavior_def)
qed

theorem failed_record_keeps_buffers_witness:
  "fst (noteBehavior init (JStr ''abc'') (JStr ''g1'')) = Inl (AssertionError BehaviorMustBeArray) \<and>
   recentBehaviors (snd (noteBehavior init (JStr ''abc'') (JStr ''g1''))) = [] \<and>
   is_undefined (dimensionality init) \<and>
   get_prop (JStr ''abc'') ''length'' = Inr (JNum 3) \<and> \<not> is_undefined (JNum 3) \<and>
   dimensionality (run scenario_config
      [NoteBehavior (JArr [1, 2]) (JStr ''g2''), NoteBehavior (JArr [1, 2, 3]) (JStr ''g3'')]
      (snd (noteBehavior init (JStr ''abc'') (JStr ''g1'')))) = JNum 3 \<and>
   get_prop (JBool True) ''length'' = Inr JUndefined \<and>
   fst (noteBehavior init (JBool True) (JStr ''g1'')) = Inl (AssertionError BehaviorMustBeArray) \<and>
   get_prop JNull ''length'' = Inl TypeError \<and>
   noteBehavior init JNull (JStr ''g1'') = (Inl TypeError, init)"
proof -
  have f: "fst (noteBehavior init (JStr ''abc'') (JStr ''g1''))
             = Inl (AssertionError BehaviorMustBeArray)"
    by (simp add: noteBehavior_def init_def)
  have u: "is_undefined (dimensionality init)" by (simp add: init_def)
  note t1 = failed_record_keeps_buffers[of init "JStr ''abc''" "JStr ''g1''"
      "AssertionError BehaviorMustBeArray" "JNum 3" scenario_config
      "[NoteBehavior (JArr [1, 2]) (JStr ''g2''), NoteBehavior (JArr [1, 2, 3]) (JStr ''g3'')]"]
  note t2 = failed_record_keeps_buffers[of init "JBool True" "JStr ''g1''"
      TypeError JUndefined scenario_config "[]"]
  note t3 = failed_record_keeps_buffers[of init JNull "JStr ''g1''"
      TypeError JUndefined scenario_config "[]"]
  have r: "recentBehaviors (snd (noteBehavior init (JStr ''abc'') (JStr ''g1''))) = []"
    using t1 f by (simp add: init_def)
  have d: "dimensionality (run scenario_config
      [NoteBehavior (JArr [1, 2]) (JStr ''g2''), NoteBehavior (JArr [1, 2, 3]) (JStr ''g3'')]
      (snd (noteBehavior init (JStr ''abc'') (JStr ''g1'')))) = JNum 3"
    using t1 u by simp
  have b: "fst (noteBehavior init (JBool True) (JStr ''g1''))
             = Inl (AssertionError BehaviorMustBeArray)"
    using t2 u by (auto simp: noteBehavior_def init_def)
  have n: "noteBehavior init JNull (JStr ''g1'') = (Inl TypeError, init)"
    using t3 u by simp
  show ?thesis using f r u d b n by simp
qed

theorem failed_number_record_leaves_dimensionality_unset:
  "fst (noteBehavior init (JNum 5) (JStr ''g1'')) = Inl (AssertionError BehaviorMustBeArray) \<and>
   dimensionality (snd (noteBehavior init (JNum 5) (JStr ''g1''))) = JUndefined \<and>
   dimensionality (snd (noteBehavior (snd (noteBehavior init (JNum 5) (JStr ''g1'')))
                          (JArr [1, 2]) (JStr ''g2''))) = JNum 2"
  by (simp add: noteBehavior_def init_def)

end
